theory Spec2Isabelle
  imports Complex_Main "HOL-Library.Sublist"
begin

section \<open>JavaScript values\<close>

text \<open>
  The ingestion tool works on the result of \<^verbatim>\<open>JSON.parse\<close>, typed \<^verbatim>\<open>any\<close>.
  A value is one of the JSON shapes, or \<^verbatim>\<open>undefined\<close> (what reading a missing property
  gives). An object is the list of its own properties, each key once, in insertion order.
  A number is a real number (the doubles are among them), an infinity or \<^verbatim>\<open>NaN\<close>; the
  program only tests numbers for truth and prints them, and how the runtime prints one is
  left to the environment below. A string is a list of characters.
\<close>

datatype number = Finite real | Infinity | NegInfinity | NaN

datatype jsval =
    JUndefined
  | JNull
  | JBool bool
  | JNum number
  | JStr string
  | JArr "jsval list"
  | JObj "(string \<times> jsval) list"

text \<open>
  \<^verbatim>\<open>TypeError\<close> is what the runtime raises (a property of \<^verbatim>\<open>null\<close>, a call of something
  that is no function, a loop over something not iterable); \<open>Thrown\<close> is
  \<^verbatim>\<open>throw new Error(msg)\<close> of the program itself; \<open>Failure\<close> is an error of a library
  or a remote service.
\<close>

datatype error = TypeError | Thrown string | Failure string

fun truthy :: "jsval \<Rightarrow> bool" where
  "truthy JUndefined = False"
| "truthy JNull = False"
| "truthy (JBool b) = b"
| "truthy (JNum n) = (n \<noteq> Finite 0 \<and> n \<noteq> NaN)"
| "truthy (JStr s) = (s \<noteq> [])"
| "truthy (JArr xs) = True"
| "truthy (JObj kvs) = True"

fun nullish :: "jsval \<Rightarrow> bool" where
  "nullish JUndefined = True"
| "nullish JNull = True"
| "nullish v = False"

text \<open>
  \<open>member v k\<close> is the optional read \<^verbatim>\<open>v?.k\<close>: \<^verbatim>\<open>undefined\<close> on \<^verbatim>\<open>null\<close> and
  \<^verbatim>\<open>undefined\<close>, the own property of an object, and \<^verbatim>\<open>undefined\<close> on every other value
  (no property name the program reads is inherited from a prototype).
  \<open>get_prop v k\<close> is the plain read \<^verbatim>\<open>v.k\<close>, which raises on \<^verbatim>\<open>null\<close> and \<^verbatim>\<open>undefined\<close>.
\<close>

fun member :: "jsval \<Rightarrow> string \<Rightarrow> jsval" where
  "member (JObj kvs) k = (case map_of kvs k of Some v \<Rightarrow> v | None \<Rightarrow> JUndefined)"
| "member v k = JUndefined"

definition get_prop :: "jsval \<Rightarrow> string \<Rightarrow> error + jsval" where
  "get_prop v k = (if nullish v then Inl TypeError else Inr (member v k))"

text \<open>\<^verbatim>\<open>a || b\<close>.\<close>

definition js_or :: "jsval \<Rightarrow> jsval \<Rightarrow> jsval" where
  "js_or a b = (if truthy a then a else b)"

text \<open>
  \<^verbatim>\<open>for (const x of v)\<close>: an array gives its elements, a string its characters, and any
  other value that can reach a loop of the program is not iterable.
\<close>

fun js_iterate :: "jsval \<Rightarrow> error + jsval list" where
  "js_iterate (JArr xs) = Inr xs"
| "js_iterate (JStr s) = Inr (map (\<lambda>c. JStr [c]) s)"
| "js_iterate v = Inl TypeError"

section \<open>Documents, rows and the outside world\<close>

text \<open>
  A \<^verbatim>\<open>Document\<close> holds the page content and the metadata it was built from. A row of the
  vector table is the (text, metadata, vector) triple; its vector is \<open>None\<close> when
  \<^verbatim>\<open>vectors[i]\<close> is \<^verbatim>\<open>undefined\<close>.
\<close>

type_synonym vector = "real list"

record document =
  pageContent :: jsval
  metadata :: jsval

type_synonym row = "jsval \<times> jsval \<times> vector option"

text \<open>
  Every call that leaves the program (file system, editor, language model, embedding
  service, vector database) is recorded, in order. The state of a run is the list of
  calls made so far.
\<close>

datatype call =
    ExistsSync string
  | ReadFileSync string
  | RmSync string
  | MkdirSync string
  | WriteFileSync string string
  | ReaddirSync string
  | GetApiKey
  | ShowInputBox string string
  | ShowQuickPick "string list" string
  | LlmInvoke string string
  | EmbedDocuments "jsval list"
  | EmbedQuery string
  | Connect string
  | CreateTable string "row list"
  | OpenTable string
  | Search vector nat

text \<open>
  What those calls answer is not the program's to decide: the environment gives the answer
  of each call from the calls made before it, so it can stand for any file system and any
  remote service. \<^verbatim>\<open>path.join\<close>, \<^verbatim>\<open>JSON.parse\<close> and the text splitter are functions of
  their arguments alone, and so are three functions of the runtime: the text a number
  prints as (\<^verbatim>\<open>String(n)\<close>), \<^verbatim>\<open>String.prototype.trim\<close> and
  \<^verbatim>\<open>String.prototype.toUpperCase\<close>. The language model's answer is
  \<^verbatim>\<open>content.toString()\<close> of its response.
\<close>

record env =
  number_toString :: "number \<Rightarrow> string"
  trim :: "string \<Rightarrow> string"
  toUpperCase :: "string \<Rightarrow> string"
  path_join :: "string \<Rightarrow> string \<Rightarrow> string"
  json_parse :: "string \<Rightarrow> error + jsval"
  splitDocuments :: "document list \<Rightarrow> error + document list"
  existsSync :: "call list \<Rightarrow> string \<Rightarrow> bool"
  readFileSync :: "call list \<Rightarrow> string \<Rightarrow> error + string"
  rmSync :: "call list \<Rightarrow> string \<Rightarrow> error + unit"
  mkdirSync :: "call list \<Rightarrow> string \<Rightarrow> error + unit"
  writeFileSync :: "call list \<Rightarrow> string \<Rightarrow> string \<Rightarrow> error + unit"
  readdirSync :: "call list \<Rightarrow> string \<Rightarrow> error + (string \<times> bool) list"
  get_apiKey :: "call list \<Rightarrow> string option"
  showInputBox :: "call list \<Rightarrow> string \<Rightarrow> string \<Rightarrow> string option"
  showQuickPick :: "call list \<Rightarrow> string list \<Rightarrow> string \<Rightarrow> string option"
  llm_invoke :: "call list \<Rightarrow> string \<Rightarrow> string \<Rightarrow> error + string"
  embedDocuments :: "call list \<Rightarrow> jsval list \<Rightarrow> error + vector list"
  embedQuery :: "call list \<Rightarrow> string \<Rightarrow> error + vector"
  connect :: "call list \<Rightarrow> string \<Rightarrow> error + unit"
  createTable :: "call list \<Rightarrow> string \<Rightarrow> row list \<Rightarrow> error + unit"
  openTable :: "call list \<Rightarrow> string \<Rightarrow> error + unit"
  search :: "call list \<Rightarrow> vector \<Rightarrow> nat \<Rightarrow> error + jsval list"

text \<open>
  A computation takes the calls made so far and returns its result, or the error it
  raised, with the calls made by then.
\<close>

type_synonym 'a io = "call list \<Rightarrow> (error + 'a) \<times> call list"

definition io_return :: "'a \<Rightarrow> 'a io" where
  "io_return x = (\<lambda>h. (Inr x, h))"

definition io_throw :: "error \<Rightarrow> 'a io" where
  "io_throw e = (\<lambda>h. (Inl e, h))"

definition io_lift :: "error + 'a \<Rightarrow> 'a io" where
  "io_lift r = (\<lambda>h. (r, h))"

definition io_call :: "call \<Rightarrow> (call list \<Rightarrow> error + 'a) \<Rightarrow> 'a io" where
  "io_call c answer = (\<lambda>h. (answer h, h @ [c]))"

definition io_bind :: "'a io \<Rightarrow> ('a \<Rightarrow> 'b io) \<Rightarrow> 'b io" where
  "io_bind m f = (\<lambda>h. case m h of (Inl e, h') \<Rightarrow> (Inl e, h') | (Inr x, h') \<Rightarrow> f x h')"

text \<open>\<^verbatim>\<open>try { m } catch (error) { handler }\<close>.\<close>

definition io_catch :: "'a io \<Rightarrow> (error \<Rightarrow> 'a io) \<Rightarrow> 'a io" where
  "io_catch m handler =
     (\<lambda>h. case m h of (Inl e, h') \<Rightarrow> handler e h' | (Inr x, h') \<Rightarrow> (Inr x, h'))"

definition fs_existsSync :: "env \<Rightarrow> string \<Rightarrow> bool io" where
  "fs_existsSync env p = io_call (ExistsSync p) (\<lambda>h. Inr (existsSync env h p))"

section \<open>Conversion to string\<close>

text \<open>Joining pieces with a separator; the first piece that raised decides the result.\<close>

fun join_pieces :: "string \<Rightarrow> (error + string) list \<Rightarrow> error + string" where
  "join_pieces sep [] = Inr []"
| "join_pieces sep [p] = p"
| "join_pieces sep (p # q # ps) =
     (case p of
        Inl e \<Rightarrow> Inl e
      | Inr s \<Rightarrow> (case join_pieces sep (q # ps) of
                    Inl e \<Rightarrow> Inl e
                  | Inr t \<Rightarrow> Inr (s @ sep @ t)))"

text \<open>
  \<open>js_toString\<close> is the conversion a template literal applies to a value. An array
  prints as its elements joined with a comma, \<^verbatim>\<open>null\<close> and \<^verbatim>\<open>undefined\<close> elements as
  nothing. A parsed object prints as \<^verbatim>\<open>[object Object]\<close>, unless it has an own property
  \<^verbatim>\<open>toString\<close>, which is then no function: the conversion raises.
\<close>

fun js_toString :: "env \<Rightarrow> jsval \<Rightarrow> error + string" where
  "js_toString env JUndefined = Inr ''undefined''"
| "js_toString env JNull = Inr ''null''"
| "js_toString env (JBool b) = Inr (if b then ''true'' else ''false'')"
| "js_toString env (JNum n) = Inr (number_toString env n)"
| "js_toString env (JStr s) = Inr s"
| "js_toString env (JArr xs) =
     join_pieces '','' (map (\<lambda>x. if nullish x then Inr [] else js_toString env x) xs)"
| "js_toString env (JObj kvs) =
     (if ''toString'' \<in> fst ` set kvs then Inl TypeError else Inr ''[object Object]'')"

text \<open>\<^verbatim>\<open>Array.prototype.join\<close> on the elements of an array.\<close>

definition js_join :: "env \<Rightarrow> string \<Rightarrow> jsval list \<Rightarrow> error + string" where
  "js_join env sep xs =
     join_pieces sep (map (\<lambda>x. if nullish x then Inr [] else js_toString env x) xs)"

text \<open>
  \<^verbatim>\<open>v.join(sep)\<close> on a value that is not \<^verbatim>\<open>null\<close> or \<^verbatim>\<open>undefined\<close>: only an array has
  the method.
\<close>

fun call_join :: "env \<Rightarrow> jsval \<Rightarrow> string \<Rightarrow> error + string" where
  "call_join env (JArr xs) sep = js_join env sep xs"
| "call_join env v sep = Inl TypeError"

text \<open>
  \<^verbatim>\<open>v?.trim()\<close> and \<^verbatim>\<open>v?.toUpperCase()\<close>: \<^verbatim>\<open>undefined\<close> when \<open>v\<close> is \<^verbatim>\<open>null\<close> or
  \<^verbatim>\<open>undefined\<close>, the method's result on a string, and a \<^verbatim>\<open>TypeError\<close> on any other value,
  which has no such method.
\<close>

fun opt_string_method :: "(string \<Rightarrow> string) \<Rightarrow> jsval \<Rightarrow> error + jsval" where
  "opt_string_method f JUndefined = Inr JUndefined"
| "opt_string_method f JNull = Inr JUndefined"
| "opt_string_method f (JStr s) = Inr (JStr (f s))"
| "opt_string_method f v = Inl TypeError"

section \<open>The URL of an endpoint\<close>

text \<open>\<^verbatim>\<open>typeof v === "object" && v !== null\<close>.\<close>

fun is_object :: "jsval \<Rightarrow> bool" where
  "is_object (JArr xs) = True"
| "is_object (JObj kvs) = True"
| "is_object v = False"

fun is_string :: "jsval \<Rightarrow> bool" where
  "is_string (JStr s) = True"
| "is_string v = False"

definition constructUrlFromPostman :: "env \<Rightarrow> jsval \<Rightarrow> error + jsval" where
  "constructUrlFromPostman env urlData =
     (if \<not> truthy urlData then Inr (JStr [])
      else if is_string urlData then Inr urlData
      else if is_object urlData then
        (if truthy (member urlData ''raw'') then Inr (member urlData ''raw'')
         else
           let protocol = js_or (member urlData ''protocol'') (JStr ''https'') in
           (case call_join env (js_or (member urlData ''host'') (JArr [])) ''.'' of
              Inl e \<Rightarrow> Inl e
            | Inr host \<Rightarrow>
               (case call_join env (js_or (member urlData ''path'') (JArr [])) ''/'' of
                  Inl e \<Rightarrow> Inl e
                | Inr path \<Rightarrow>
                   (if host \<noteq> [] then
                      (case js_toString env protocol of
                         Inl e \<Rightarrow> Inl e
                       | Inr p \<Rightarrow> Inr (JStr (p @ ''://'' @ host @ ''/'' @ path)))
                    else Inr (JStr [])))))
      else Inr (JStr []))"

section \<open>Flattening the collection\<close>

text \<open>\<^verbatim>\<open>Array.isArray(v)\<close>, and the elements of an array.\<close>

fun is_array :: "jsval \<Rightarrow> bool" where
  "is_array (JArr xs) = True"
| "is_array v = False"

fun elements :: "jsval \<Rightarrow> jsval list" where
  "elements (JArr xs) = xs"
| "elements v = []"

lemma map_of_size:
  "map_of kvs k = Some v \<Longrightarrow> size v < Suc (size_list (size_prod (\<lambda>_. 0) size) kvs)"
  by (induction kvs) (auto split: if_splits)

lemma member_size: "is_array (member v k) \<Longrightarrow> size_list size (elements (member v k)) < size v"
proof (cases v)
  case (JObj kvs)
  assume "is_array (member v k)"
  with JObj obtain w where w: "map_of kvs k = Some w" and "is_array w"
    by (cases "map_of kvs k") auto
  then obtain xs where "w = JArr xs" by (cases w) auto
  with w map_of_size [OF w] JObj show ?thesis by simp
qed auto

text \<open>
  \<^verbatim>\<open>flattenEndpoints\<close>: \<open>flatten_loop items out\<close> is the \<^verbatim>\<open>for\<close> loop with the items
  still to visit and the array \<^verbatim>\<open>out\<close> built so far; the recursive call on \<^verbatim>\<open>item.item\<close>
  starts from an empty \<^verbatim>\<open>out\<close> and its result is pushed onto the caller's. Reading
  \<^verbatim>\<open>item.item\<close> raises when \<^verbatim>\<open>item\<close> is \<^verbatim>\<open>null\<close>.
\<close>

function flatten_loop :: "jsval list \<Rightarrow> jsval list \<Rightarrow> error + jsval list" where
  "flatten_loop [] out = Inr out"
| "flatten_loop (item # items) out =
     (if nullish item then Inl TypeError
      else if truthy (member item ''item'') \<and> is_array (member item ''item'') then
        (case flatten_loop (elements (member item ''item'')) [] of
           Inl e \<Rightarrow> Inl e
         | Inr inner \<Rightarrow> flatten_loop items (out @ inner))
      else flatten_loop items (out @ [item]))"
  by pat_completeness auto
termination
  by (relation "measure (\<lambda>(items, out). size_list size items)")
     (auto dest: member_size)

definition flattenEndpoints :: "jsval \<Rightarrow> error + jsval list" where
  "flattenEndpoints items =
     (case js_iterate items of Inl e \<Rightarrow> Inl e | Inr xs \<Rightarrow> flatten_loop xs [])"

text \<open>
  The claim's words: a folder is an item whose \<^verbatim>\<open>item\<close> field is an array, every other
  item is a leaf, and the leaves of a forest are listed depth first, left to right.
\<close>

definition is_folder :: "jsval \<Rightarrow> bool" where
  "is_folder v = is_array (member v ''item'')"

definition children :: "jsval \<Rightarrow> jsval list" where
  "children v = elements (member v ''item'')"

lemma children_size: "c \<in> set (children v) \<Longrightarrow> size c < size v"
proof -
  assume c: "c \<in> set (children v)"
  then have arr: "is_array (member v ''item'')"
    by (cases "member v ''item''") (auto simp: children_def)
  from c have "size c \<le> size_list size (elements (member v ''item''))"
    by (simp add: children_def size_list_estimation')
  with member_size [OF arr] show ?thesis by simp
qed

function leaves :: "jsval \<Rightarrow> jsval list" where
  "leaves v = (if is_folder v then concat (map leaves (children v)) else [v])"
  by pat_completeness auto
termination
  by (relation "measure size") (auto dest: children_size)

definition leaf_items :: "jsval list \<Rightarrow> jsval list" where
  "leaf_items items = concat (map leaves items)"

section \<open>Creating the documents\<close>

definition newline :: string where
  "newline = [CHR 0x0A]"

definition enhance_prompt :: "string \<Rightarrow> string \<Rightarrow> string \<Rightarrow> string" where
  "enhance_prompt desc name company =
     ''API Company: '' @ company @ newline @ ''Endpoint: '' @ name @ newline
     @ ''Original Description: '' @ desc @ newline @ newline
     @ ''Please add a single concise sentence explaining a few key business use cases.''"

definition enhanceDescription :: "env \<Rightarrow> string \<Rightarrow> string \<Rightarrow> string \<Rightarrow> string io" where
  "enhanceDescription env desc name company =
     (let prompt = enhance_prompt desc name company
      in io_catch
           (io_bind (io_call (LlmInvoke ''gpt-3.5-turbo'' prompt)
                       (\<lambda>h. llm_invoke env h ''gpt-3.5-turbo'' prompt))
              (\<lambda>content. io_return (trim env content)))
           (\<lambda>error. io_return desc))"

text \<open>\<^verbatim>\<open>v || ""\<close> for a value \<open>v\<close> that is a string or \<^verbatim>\<open>undefined\<close>.\<close>

fun or_empty :: "jsval \<Rightarrow> string" where
  "or_empty (JStr s) = s"
| "or_empty v = []"

text \<open>
  \<^verbatim>\<open>typeof d === "string" ? d : d?.content || ""\<close>, and the template literal
  \<^verbatim>\<open>`Endpoint URL: ${url}\n\n${descriptionText}`\<close>.
\<close>

definition descriptionText :: "jsval \<Rightarrow> jsval" where
  "descriptionText d = (if is_string d then d else js_or (member d ''content'') (JStr []))"

definition contentWithUrl :: "env \<Rightarrow> jsval \<Rightarrow> jsval \<Rightarrow> error + string" where
  "contentWithUrl env url text =
     (case js_toString env url of
        Inl e \<Rightarrow> Inl e
      | Inr u \<Rightarrow> (case js_toString env text of
                    Inl e \<Rightarrow> Inl e
                  | Inr t \<Rightarrow> Inr (''Endpoint URL: '' @ u @ newline @ newline @ t)))"

definition baseMeta :: "string \<Rightarrow> string \<Rightarrow> string \<Rightarrow> jsval \<Rightarrow> (string \<times> jsval) list" where
  "baseMeta name company method url =
     [(''name'', JStr name), (''company'', JStr company), (''method'', JStr method),
      (''url'', url)]"

text \<open>The inner loop over \<^verbatim>\<open>ep.response || []\<close>.\<close>

fun response_documents :: "(string \<times> jsval) list \<Rightarrow> jsval list \<Rightarrow> error + document list" where
  "response_documents meta [] = Inr []"
| "response_documents meta (res # rest) =
     (if nullish res then Inl TypeError
      else (case response_documents meta rest of
              Inl e \<Rightarrow> Inl e
            | Inr ds \<Rightarrow>
                Inr ((if truthy (member res ''body'')
                      then [\<lparr>pageContent = member res ''body'',
                             metadata = JObj (meta @ [(''type'', JStr ''response''),
                                                      (''status_code'', member res ''code'')])\<rparr>]
                      else []) @ ds)))"

text \<open>
  \<^verbatim>\<open>ep.name?.trim() || ""\<close> and \<^verbatim>\<open>ep.request?.method?.toUpperCase() || ""\<close>. Reading
  \<^verbatim>\<open>ep.name\<close> raises when \<open>ep\<close> is \<^verbatim>\<open>null\<close> or \<^verbatim>\<open>undefined\<close>.
\<close>

definition endpoint_name :: "env \<Rightarrow> jsval \<Rightarrow> error + string" where
  "endpoint_name env ep =
     (case get_prop ep ''name'' of
        Inl e \<Rightarrow> Inl e
      | Inr n \<Rightarrow> (case opt_string_method (trim env) n of
                    Inl e \<Rightarrow> Inl e
                  | Inr trimmed \<Rightarrow> Inr (or_empty trimmed)))"

definition endpoint_method :: "env \<Rightarrow> jsval \<Rightarrow> error + string" where
  "endpoint_method env ep =
     (case opt_string_method (toUpperCase env) (member (member ep ''request'') ''method'') of
        Inl e \<Rightarrow> Inl e
      | Inr upper \<Rightarrow> Inr (or_empty upper))"

text \<open>
  One round of the loop of \<^verbatim>\<open>createDocumentsFromEndpoints\<close>: the documents pushed for
  the endpoint \<open>ep\<close>.
\<close>

definition endpoint_documents :: "env \<Rightarrow> string \<Rightarrow> jsval \<Rightarrow> document list io" where
  "endpoint_documents env company ep =
     io_bind (io_lift (endpoint_name env ep)) (\<lambda>name.
     let request = member ep ''request'' in
     io_bind (io_lift (constructUrlFromPostman env (member request ''url''))) (\<lambda>url.
     io_bind (io_lift (endpoint_method env ep)) (\<lambda>method.
     let meta = baseMeta name company method url in
     io_bind
       (if truthy (member request ''description'') then
          io_bind (io_lift (contentWithUrl env url
                     (descriptionText (member request ''description'')))) (\<lambda>content.
          io_bind (enhanceDescription env content name company) (\<lambda>enhancedDesc.
          io_return [\<lparr>pageContent = JStr enhancedDesc,
                      metadata = JObj (meta @ [(''type'', JStr ''description'')])\<rparr>]))
        else io_return []) (\<lambda>described.
     let body = (if truthy (member (member request ''body'') ''raw'')
                 then [\<lparr>pageContent = member (member request ''body'') ''raw'',
                        metadata = JObj (meta @ [(''type'', JStr ''body'')])\<rparr>]
                 else []) in
     io_bind (io_lift (js_iterate (js_or (member ep ''response'') (JArr [])))) (\<lambda>responses.
     io_bind (io_lift (response_documents meta responses)) (\<lambda>answered.
     io_return (described @ body @ answered)))))))"

fun documents_loop :: "env \<Rightarrow> string \<Rightarrow> jsval list \<Rightarrow> document list \<Rightarrow> document list io" where
  "documents_loop env company [] documents = io_return documents"
| "documents_loop env company (ep # eps) documents =
     io_bind (endpoint_documents env company ep) (\<lambda>pushed.
       documents_loop env company eps (documents @ pushed))"

definition createDocumentsFromEndpoints ::
  "env \<Rightarrow> jsval list \<Rightarrow> string \<Rightarrow> document list io" where
  "createDocumentsFromEndpoints env endpoints company = documents_loop env company endpoints []"

section \<open>Saving the vector table and running the pipeline\<close>

text \<open>\<^verbatim>\<open>xs[i]\<close>, \<^verbatim>\<open>undefined\<close> out of range.\<close>

definition index :: "'a list \<Rightarrow> nat \<Rightarrow> 'a option" where
  "index xs i = (if i < length xs then Some (xs ! i) else None)"

definition table_data :: "document list \<Rightarrow> vector list \<Rightarrow> row list" where
  "table_data chunks vectors =
     map (\<lambda>(chunk, i). (pageContent chunk, metadata chunk, index vectors i))
       (zip chunks [0..<length chunks])"

definition createAndSaveLanceDBStore :: "env \<Rightarrow> document list \<Rightarrow> string \<Rightarrow> string \<Rightarrow> unit io" where
  "createAndSaveLanceDBStore env chunks collectionName storagePath =
     (let dbPath = path_join env storagePath collectionName in
      io_bind (fs_existsSync env dbPath) (\<lambda>found.
      io_bind (if found then io_call (RmSync dbPath) (\<lambda>h. rmSync env h dbPath)
               else io_return ()) (\<lambda>_.
      if chunks = [] then io_return ()
      else
        let texts = map pageContent chunks in
        io_bind (io_call (EmbedDocuments texts) (\<lambda>h. embedDocuments env h texts)) (\<lambda>vectors.
        let data = table_data chunks vectors in
        io_bind (io_call (Connect dbPath) (\<lambda>h. connect env h dbPath)) (\<lambda>db.
        io_call (CreateTable collectionName data)
          (\<lambda>h. createTable env h collectionName data))))))"

text \<open>The body of the \<^verbatim>\<open>try\<close> block of \<^verbatim>\<open>run\<close>.\<close>

definition run_steps :: "env \<Rightarrow> string \<Rightarrow> string \<Rightarrow> string \<Rightarrow> string \<Rightarrow> bool io" where
  "run_steps env postmanPath collectionName company storagePath =
     io_bind (io_call (ReadFileSync postmanPath) (\<lambda>h. readFileSync env h postmanPath)) (\<lambda>rawText.
     io_bind (io_lift (json_parse env rawText)) (\<lambda>postmanData.
     io_bind (io_lift (get_prop postmanData ''item'')) (\<lambda>item.
     io_bind (io_lift (flattenEndpoints (js_or item (JArr [])))) (\<lambda>endpoints.
     io_bind (createDocumentsFromEndpoints env endpoints company) (\<lambda>documents.
     io_bind (io_lift (splitDocuments env documents)) (\<lambda>chunks.
     io_bind (createAndSaveLanceDBStore env chunks collectionName storagePath) (\<lambda>_.
     io_return True)))))))"

definition run :: "env \<Rightarrow> string \<Rightarrow> string \<Rightarrow> string \<Rightarrow> string \<Rightarrow> bool io" where
  "run env postmanPath collectionName company storagePath =
     (let dbPath = path_join env storagePath collectionName in
      io_bind (fs_existsSync env dbPath) (\<lambda>found.
      if found then io_return True
      else io_catch (run_steps env postmanPath collectionName company storagePath)
             (\<lambda>error. io_return False)))"

text \<open>The constructor of \<^verbatim>\<open>IngestionTool\<close> refuses an empty key.\<close>

definition new_IngestionTool :: "string \<Rightarrow> error + unit" where
  "new_IngestionTool openaiApiKey =
     (if openaiApiKey = [] then Inl (Thrown ''OpenAI API key is required.'') else Inr ())"

definition ingestPostmanCollection ::
  "env \<Rightarrow> string \<Rightarrow> string \<Rightarrow> string \<Rightarrow> string \<Rightarrow> string \<Rightarrow> bool io" where
  "ingestPostmanCollection env postmanPath collectionName companyName openaiApiKey storagePath =
     io_catch
       (io_bind (io_lift (new_IngestionTool openaiApiKey)) (\<lambda>tool.
        io_bind (run env postmanPath collectionName companyName storagePath) (\<lambda>result.
        io_return result)))
       (\<lambda>error. io_return False)"

section \<open>Generating code in the editor\<close>

text \<open>
  The replacement \<^verbatim>\<open>/[^a-zA-Z0-9]/g\<close> by an underscore, and the two replacements that take
  a code fence off a model's answer: \<^verbatim>\<open>/^```[\w]*\n?/\<close> at its start and \<^verbatim>\<open>/\n?```$/\<close> at
  its end.
\<close>

definition is_alnum :: "char \<Rightarrow> bool" where
  "is_alnum c =
     (c \<in> set ''abcdefghijklmnopqrstuvwxyzABCDEFGHIJKLMNOPQRSTUVWXYZ0123456789'')"

definition is_word :: "char \<Rightarrow> bool" where
  "is_word c = (is_alnum c \<or> c = CHR ''_'')"

definition safe_name :: "string \<Rightarrow> string" where
  "safe_name endpointName = map (\<lambda>c. if is_alnum c then c else CHR ''_'') endpointName"

definition fence :: string where
  "fence = [CHR 0x60, CHR 0x60, CHR 0x60]"

definition strip_opening_fence :: "string \<Rightarrow> string" where
  "strip_opening_fence s =
     (if prefix fence s then
        (case dropWhile is_word (drop 3 s) of
           [] \<Rightarrow> []
         | c # cs \<Rightarrow> if c = CHR 0x0A then cs else c # cs)
      else s)"

definition strip_closing_fence :: "string \<Rightarrow> string" where
  "strip_closing_fence s =
     (if suffix fence s then
        (let body = take (length s - 3) s
         in if body \<noteq> [] \<and> last body = CHR 0x0A then butlast body else body)
      else s)"

definition clean_snippet :: "env \<Rightarrow> string \<Rightarrow> string" where
  "clean_snippet env content =
     trim env (strip_closing_fence (strip_opening_fence (trim env content)))"

text \<open>
  The cache of generated snippets. \<open>storage\<close> is \<^verbatim>\<open>context.globalStorageUri.fsPath\<close>.
  \<^verbatim>\<open>getCachedCode\<close> gives \<open>None\<close> for \<^verbatim>\<open>null\<close>.
\<close>

definition getCodeCacheFilePath :: "env \<Rightarrow> string \<Rightarrow> string \<Rightarrow> string \<Rightarrow> string io" where
  "getCodeCacheFilePath env storage endpointName language =
     (let cacheDir = path_join env storage ''generated_code'' in
      io_bind (fs_existsSync env cacheDir) (\<lambda>found.
      io_bind (if \<not> found then io_call (MkdirSync cacheDir) (\<lambda>h. mkdirSync env h cacheDir)
               else io_return ()) (\<lambda>_.
      io_return (path_join env cacheDir (safe_name endpointName @ ''_'' @ language @ ''.txt'')))))"

definition getCachedCode :: "env \<Rightarrow> string \<Rightarrow> string \<Rightarrow> string \<Rightarrow> string option io" where
  "getCachedCode env storage endpointName language =
     io_bind (getCodeCacheFilePath env storage endpointName language) (\<lambda>cacheFile.
     io_bind (fs_existsSync env cacheFile) (\<lambda>found.
     if found then
       io_bind (io_call (ReadFileSync cacheFile) (\<lambda>h. readFileSync env h cacheFile)) (\<lambda>code.
       io_return (Some code))
     else io_return None))"

definition saveCodeToCache :: "env \<Rightarrow> string \<Rightarrow> string \<Rightarrow> string \<Rightarrow> string \<Rightarrow> unit io" where
  "saveCodeToCache env storage endpointName language code =
     io_bind (getCodeCacheFilePath env storage endpointName language) (\<lambda>cacheFile.
     io_call (WriteFileSync cacheFile code) (\<lambda>h. writeFileSync env h cacheFile code))"

text \<open>\<^verbatim>\<open>results.map((result) => result.text)\<close>: reading a property of each result.\<close>

fun map_prop :: "string \<Rightarrow> jsval list \<Rightarrow> error + jsval list" where
  "map_prop k [] = Inr []"
| "map_prop k (r # rs) =
     (case get_prop r k of
        Inl e \<Rightarrow> Inl e
      | Inr v \<Rightarrow> (case map_prop k rs of Inl e \<Rightarrow> Inl e | Inr vs \<Rightarrow> Inr (v # vs)))"

definition context_separator :: string where
  "context_separator = newline @ ''---'' @ newline"

definition quote :: string where
  "quote = [CHR 0x22]"

definition generate_prompt :: "string \<Rightarrow> string \<Rightarrow> string" where
  "generate_prompt language enrichedQuery =
     ''Your task is to be a raw code generator. Based on the provided API documentation, ''
     @ ''generate a single, complete, and executable code snippet in '' @ language
     @ ''. Your response will be directly executed as '' @ language
     @ '' code. Do NOT include any explanations, introductory text, or markdown code blocks like ''
     @ fence @ ''. Real User Request: '' @ quote @ enrichedQuery @ quote @ newline
     @ ''Generate the code now:''"

definition generateCodeLogic :: "env \<Rightarrow> string \<Rightarrow> string \<Rightarrow> string \<Rightarrow> string \<Rightarrow> string io" where
  "generateCodeLogic env storage endpointName collectionName language =
     io_bind (getCachedCode env storage endpointName language) (\<lambda>cachedCode.
     if cachedCode \<noteq> None \<and> cachedCode \<noteq> Some [] then io_return (the cachedCode)
     else
       io_bind (io_call GetApiKey (\<lambda>h. Inr (get_apiKey env h))) (\<lambda>apiKey.
       if apiKey = None \<or> apiKey = Some [] then
         io_throw (Thrown ''OpenAI API Key is not set in settings.'')
       else
         let ask = ''Generate '' @ language @ '' code for '' @ quote @ endpointName @ quote;
             hint = ''e.g., '' @ quote @ ''with error handling'' @ quote in
         io_bind (io_call (ShowInputBox ask hint) (\<lambda>h. Inr (showInputBox env h ask hint)))
           (\<lambda>userQuery.
         if userQuery = None then io_return []
         else
           let enrichedQuery = (if the userQuery \<noteq> [] then endpointName @ '' '' @ the userQuery
                                else endpointName);
               dbPath = path_join env storage collectionName in
           io_bind (io_call (Connect dbPath) (\<lambda>h. connect env h dbPath)) (\<lambda>db.
           io_bind (io_call (OpenTable collectionName) (\<lambda>h. openTable env h collectionName))
             (\<lambda>table.
           io_bind (io_call (EmbedQuery enrichedQuery) (\<lambda>h. embedQuery env h enrichedQuery))
             (\<lambda>queryVector.
           io_bind (io_call (Search queryVector 4) (\<lambda>h. search env h queryVector 4))
             (\<lambda>results.
           io_bind (io_lift (map_prop ''text'' results)) (\<lambda>contents.
           if contents = [] then
             io_throw (Thrown (''Could not find documentation for '' @ [CHR 0x27]
                               @ endpointName @ [CHR 0x27] @ ''.''))
           else
             io_bind (io_lift (js_join env context_separator contents)) (\<lambda>contextText.
             let prompt = generate_prompt language enrichedQuery in
             io_bind (io_call (LlmInvoke ''gpt-4o'' prompt)
                        (\<lambda>h. llm_invoke env h ''gpt-4o'' prompt)) (\<lambda>content.
             let codeSnippet = clean_snippet env content in
             io_bind (saveCodeToCache env storage endpointName language codeSnippet) (\<lambda>_.
             io_return codeSnippet)))))))))))"

definition refactor_prompt :: "string \<Rightarrow> string \<Rightarrow> string \<Rightarrow> string \<Rightarrow> string" where
  "refactor_prompt apiContextText language selectedText userInstruction =
     ''You are an expert code refactoring assistant. Your task is to rewrite a given block ''
     @ ''of code to correctly and efficiently use an API, based on a user'' @ [CHR 0x27]
     @ ''s instruction and the provided API documentation.'' @ newline
     @ ''**Goal:** Your output will be a new, improved block of code that serves as a direct, ''
     @ ''drop-in replacement for the user'' @ [CHR 0x27] @ ''s original selection.'' @ newline
     @ ''**Context Provided:**'' @ newline
     @ ''---'' @ newline
     @ ''**API Documentation:**'' @ newline
     @ apiContextText @ newline
     @ ''---'' @ newline
     @ ''**User'' @ [CHR 0x27] @ ''s Original Code to Refactor:**'' @ newline
     @ fence @ language @ newline
     @ selectedText @ newline
     @ fence @ newline
     @ ''---'' @ newline
     @ ''**User'' @ [CHR 0x27] @ ''s Refactor Instruction:**'' @ newline
     @ quote @ userInstruction @ quote @ newline
     @ ''---'' @ newline
     @ ''**Your Task:** Based on all the context above, generate the refactored code block in ''
     @ language @ ''.'' @ newline
     @ ''**Final Output Rules:**'' @ newline
     @ ''- Return ONLY the refactored, executable code.'' @ newline
     @ ''- Do not include any explanations, introductory text, or markdown formatting.'' @ newline
     @ ''- The new code should be a complete, drop-in replacement for the original selection.''
     @ newline
     @ ''Generate the refactored code now:''"

definition generateRefactoredCodeLogic ::
  "env \<Rightarrow> string \<Rightarrow> string \<Rightarrow> string \<Rightarrow> string \<Rightarrow> string io" where
  "generateRefactoredCodeLogic env storagePath language selectedText userInstruction =
     io_bind (io_call GetApiKey (\<lambda>h. Inr (get_apiKey env h))) (\<lambda>apiKey.
     if apiKey = None \<or> apiKey = Some [] then io_throw (Thrown ''OpenAI API Key is not set.'')
     else
       io_bind (io_call (ReaddirSync storagePath) (\<lambda>h. readdirSync env h storagePath))
         (\<lambda>entries.
       let collectionDirs =
             map fst (filter (\<lambda>(name, isDirectory). isDirectory \<and> prefix ''codepilot_'' name)
                        entries) in
       if collectionDirs = [] then
         io_throw (Thrown ''No API documentation has been ingested yet.'')
       else
         let hint = ''Which API documentation should be used for context?'' in
         io_bind (io_call (ShowQuickPick collectionDirs hint)
                    (\<lambda>h. Inr (showQuickPick env h collectionDirs hint))) (\<lambda>collectionName.
         if collectionName = None \<or> collectionName = Some [] then io_return []
         else
           let dbPath = path_join env storagePath (the collectionName) in
           io_bind (io_call (Connect dbPath) (\<lambda>h. connect env h dbPath)) (\<lambda>db.
           io_bind (io_call (OpenTable (the collectionName))
                      (\<lambda>h. openTable env h (the collectionName))) (\<lambda>table.
           let searchQuery = userInstruction @ '' '' @ selectedText in
           io_bind (io_call (EmbedQuery searchQuery) (\<lambda>h. embedQuery env h searchQuery))
             (\<lambda>queryVector.
           io_bind (io_call (Search queryVector 5) (\<lambda>h. search env h queryVector 5))
             (\<lambda>results.
           io_bind (io_lift (map_prop ''text'' results)) (\<lambda>texts.
           io_bind (io_lift (js_join env context_separator texts)) (\<lambda>apiContextText.
           let prompt = refactor_prompt apiContextText language selectedText userInstruction in
           io_bind (io_call (LlmInvoke ''gpt-4o'' prompt)
                      (\<lambda>h. llm_invoke env h ''gpt-4o'' prompt)) (\<lambda>content.
           io_return (clean_snippet env content)))))))))))"

section \<open>Notions the properties are stated with\<close>

text \<open>
  The calls that build the vector store, and the calls to the language model. A computation
  \<open>m\<close> makes \<open>calls_only P\<close> when every call it adds to the record satisfies \<open>P\<close>.
\<close>

fun is_store_call :: "call \<Rightarrow> bool" where
  "is_store_call (EmbedDocuments texts) = True"
| "is_store_call (Connect p) = True"
| "is_store_call (CreateTable name data) = True"
| "is_store_call c = False"

fun is_llm_call :: "call \<Rightarrow> bool" where
  "is_llm_call (LlmInvoke model prompt) = True"
| "is_llm_call c = False"

text \<open>The calls that look the snippet cache up.\<close>

fun is_cache_call :: "call \<Rightarrow> bool" where
  "is_cache_call (ExistsSync p) = True"
| "is_cache_call (MkdirSync p) = True"
| "is_cache_call (ReadFileSync p) = True"
| "is_cache_call c = False"

definition calls_only :: "(call \<Rightarrow> bool) \<Rightarrow> 'a io \<Rightarrow> bool" where
  "calls_only P m = (\<forall>h. \<exists>cs. snd (m h) = h @ cs \<and> list_all P cs)"

text \<open>
  The calls made when \<^verbatim>\<open>createAndSaveLanceDBStore\<close> reaches the embedding: the check of the
  directory, and its removal when it was found.
\<close>

definition store_prefix :: "env \<Rightarrow> call list \<Rightarrow> string \<Rightarrow> call list" where
  "store_prefix env h dbPath =
     h @ [ExistsSync dbPath] @ (if existsSync env h dbPath then [RmSync dbPath] else [])"

text \<open>
  A document of type \<^verbatim>\<open>description\<close>, and an endpoint whose \<^verbatim>\<open>request.description\<close>
  is truthy.
\<close>

definition is_description_doc :: "document \<Rightarrow> bool" where
  "is_description_doc d = (member (metadata d) ''type'' = JStr ''description'')"

definition has_description :: "jsval \<Rightarrow> bool" where
  "has_description ep = truthy (member (member ep ''request'') ''description'')"

text \<open>
  The unenhanced text of an endpoint, in the claim's words: \<^verbatim>\<open>Endpoint URL: \<close> and the
  URL of the endpoint, a blank line, and the words of the description. The words of a
  description are the description itself when it is a string, its \<^verbatim>\<open>content\<close> field,
  printed, when it is an object with a truthy one, and nothing for every other
  description (a number, \<^verbatim>\<open>true\<close>, an array, an object with no truthy \<^verbatim>\<open>content\<close>).
\<close>

fun description_words :: "env \<Rightarrow> jsval \<Rightarrow> error + string" where
  "description_words env (JStr s) = Inr s"
| "description_words env (JObj kvs) =
     (case map_of kvs ''content'' of
        None \<Rightarrow> Inr []
      | Some c \<Rightarrow> if truthy c then js_toString env c else Inr [])"
| "description_words env v = Inr []"

definition unenhanced :: "env \<Rightarrow> jsval \<Rightarrow> error + string" where
  "unenhanced env ep =
     (case constructUrlFromPostman env (member (member ep ''request'') ''url'') of
        Inl e \<Rightarrow> Inl e
      | Inr url \<Rightarrow>
         (case js_toString env url of
            Inl e \<Rightarrow> Inl e
          | Inr u \<Rightarrow>
             (case description_words env (member (member ep ''request'') ''description'') of
                Inl e \<Rightarrow> Inl e
              | Inr w \<Rightarrow> Inr (''Endpoint URL: '' @ u @ [CHR 0x0A, CHR 0x0A] @ w))))"

text \<open>
  The name of an endpoint as the prompt sent to the language model holds it: trimmed, and
  empty when the endpoint has no name.
\<close>

fun trimmed_name :: "env \<Rightarrow> jsval \<Rightarrow> string" where
  "trimmed_name env (JObj kvs) =
     (case map_of kvs ''name'' of Some (JStr s) \<Rightarrow> trim env s | _ \<Rightarrow> [])"
| "trimmed_name env v = []"

text \<open>
  What \<^verbatim>\<open>enhanceDescription\<close> returns for the text \<open>desc\<close> when the model's answer is
  \<open>answer\<close>.
\<close>

definition enhanced_text :: "env \<Rightarrow> error + string \<Rightarrow> string \<Rightarrow> string" where
  "enhanced_text env answer desc =
     (case answer of Inl e \<Rightarrow> desc | Inr content \<Rightarrow> trim env content)"

text \<open>
  What a round of the document loop owes its endpoint \<open>ep\<close>, when the round starts after
  the calls \<open>h\<close>, pushes the documents \<open>fst r\<close> and makes the calls \<open>snd r\<close>.
\<close>

definition round_ok ::
  "env \<Rightarrow> string \<Rightarrow> jsval \<Rightarrow> call list \<Rightarrow> document list \<times> call list \<Rightarrow> bool" where
  "round_ok env company ep h r =
     (((\<exists>d\<in>set (fst r). is_description_doc d) \<longleftrightarrow> has_description ep) \<and>
      (\<not> has_description ep \<longrightarrow> snd r = []) \<and>
      (has_description ep \<longrightarrow>
         (\<exists>content prompt d rest.
            unenhanced env ep = Inr content \<and>
            prompt = enhance_prompt content (trimmed_name env ep) company \<and>
            fst r = d # rest \<and> is_description_doc d \<and>
            (\<forall>d'\<in>set rest. \<not> is_description_doc d') \<and>
            snd r = [LlmInvoke ''gpt-3.5-turbo'' prompt] \<and>
            (\<forall>e. llm_invoke env h ''gpt-3.5-turbo'' prompt = Inl e \<longrightarrow>
                   pageContent d = JStr content) \<and>
            (\<forall>a. llm_invoke env h ''gpt-3.5-turbo'' prompt = Inr a \<longrightarrow>
                   pageContent d = JStr (trim env a)))))"

section \<open>An example world\<close>

text \<open>
  A small world to run the program in. A directory exists once a connection or a
  \<^verbatim>\<open>mkdir\<close> made it and no removal followed; a file holds what was last written to it.
  The collection file parses to \<open>parsed\<close> and the language model answers \<open>answer\<close>.
\<close>

fun dir_after :: "bool \<Rightarrow> call list \<Rightarrow> string \<Rightarrow> bool" where
  "dir_after b [] p = b"
| "dir_after b (Connect q # cs) p = dir_after (b \<or> q = p) cs p"
| "dir_after b (MkdirSync q # cs) p = dir_after (b \<or> q = p) cs p"
| "dir_after b (RmSync q # cs) p = dir_after (b \<and> q \<noteq> p) cs p"
| "dir_after b (c # cs) p = dir_after b cs p"

fun file_after :: "string option \<Rightarrow> call list \<Rightarrow> string \<Rightarrow> string option" where
  "file_after s [] p = s"
| "file_after s (WriteFileSync q t # cs) p = file_after (if q = p then Some t else s) cs p"
| "file_after s (c # cs) p = file_after s cs p"

text \<open>
  Its runtime works on ASCII text: white space is tab, line feed, vertical tab, form feed,
  carriage return and space, the letters are the ASCII ones, and a number prints as the
  decimal digits of its whole part, which is how the runtime prints the whole numbers the
  examples hold.
\<close>

definition is_space :: "char \<Rightarrow> bool" where
  "is_space c = (c \<in> set [CHR 0x09, CHR 0x0A, CHR 0x0B, CHR 0x0C, CHR 0x0D, CHR '' ''])"

definition ascii_trim :: "string \<Rightarrow> string" where
  "ascii_trim s = rev (dropWhile is_space (rev (dropWhile is_space s)))"

definition upper_char :: "char \<Rightarrow> char" where
  "upper_char c =
     (case map_of (zip ''abcdefghijklmnopqrstuvwxyz'' ''ABCDEFGHIJKLMNOPQRSTUVWXYZ'') c of
        Some u \<Rightarrow> u
      | None \<Rightarrow> c)"

definition ascii_upper :: "string \<Rightarrow> string" where
  "ascii_upper s = map upper_char s"

fun nat_digits :: "nat \<Rightarrow> string" where
  "nat_digits n =
     (if n < 10 then [''0123456789'' ! n]
      else nat_digits (n div 10) @ [''0123456789'' ! (n mod 10)])"

fun whole_digits :: "number \<Rightarrow> string" where
  "whole_digits (Finite r) =
     (if r < 0 then CHR ''-'' # nat_digits (nat \<lfloor>- r\<rfloor>) else nat_digits (nat \<lfloor>r\<rfloor>))"
| "whole_digits Infinity = ''Infinity''"
| "whole_digits NegInfinity = ''-Infinity''"
| "whole_digits NaN = ''NaN''"

definition shop_env :: "error + jsval \<Rightarrow> error + string \<Rightarrow> env" where
  "shop_env parsed answer =
     \<lparr>number_toString = whole_digits,
      trim = ascii_trim,
      toUpperCase = ascii_upper,
      path_join = (\<lambda>a b. a @ ''/'' @ b),
      json_parse = (\<lambda>s. parsed),
      splitDocuments = (\<lambda>ds. Inr ds),
      existsSync = (\<lambda>h p. dir_after False h p \<or> file_after None h p \<noteq> None),
      readFileSync = (\<lambda>h p. if p = ''/docs/shop.json'' then Inr ''{}''
                             else (case file_after None h p of
                                     Some s \<Rightarrow> Inr s
                                   | None \<Rightarrow> Inl (Failure ''ENOENT''))),
      rmSync = (\<lambda>h p. Inr ()),
      mkdirSync = (\<lambda>h p. Inr ()),
      writeFileSync = (\<lambda>h p s. Inr ()),
      readdirSync = (\<lambda>h p. Inr [(''codepilot_shop'', True), (''generated_code'', True)]),
      get_apiKey = (\<lambda>h. Some ''sk-test''),
      showInputBox = (\<lambda>h ask hint. Some ''with error handling''),
      showQuickPick = (\<lambda>h choices hint. Some ''codepilot_shop''),
      llm_invoke = (\<lambda>h model prompt. answer),
      embedDocuments = (\<lambda>h texts. Inr (take (length texts) [[1], [2], [3], [4]])),
      embedQuery = (\<lambda>h q. Inr [1]),
      connect = (\<lambda>h p. Inr ()),
      createTable = (\<lambda>h name data. Inr ()),
      openTable = (\<lambda>h name. Inr ()),
      search = (\<lambda>h v k. Inr (take k [JObj [(''text'', JStr ''POST /orders creates an order'')],
                                       JObj [(''text'', JStr ''Send a Bearer token'')]]))\<rparr>"

definition shop_collection :: jsval where
  "shop_collection =
     JObj [(''info'', JObj [(''name'', JStr ''Shop'')]),
           (''item'',
            JArr [JObj [(''name'', JStr '' Create Order ''),
                        (''request'',
                         JObj [(''method'', JStr ''post''),
                               (''url'', JObj [(''raw'', JStr ''https://api.shop.test/orders'')]),
                               (''description'', JStr ''Creates an order.''),
                               (''body'', JObj [(''raw'', JStr ''sku=1'')])]),
                        (''response'', JArr [JObj [(''code'', JNum (Finite 201)),
                                                   (''body'', JStr ''created'')]])]])]"

definition bare_collection :: jsval where
  "bare_collection =
     JObj [(''item'',
            JArr [JObj [(''name'', JStr ''Ping''),
                        (''request'', JObj [(''method'', JStr ''GET''),
                                            (''url'', JStr ''https://api.shop.test/ping'')])]])]"

definition first_run :: "(error + bool) \<times> call list" where
  "first_run = run (shop_env (Inr shop_collection) (Inr '' Used to place orders. ''))
                 ''/docs/shop.json'' ''codepilot_shop'' ''Shop'' ''/storage'' []"

definition two_chunks :: "document list" where
  "two_chunks =
     [\<lparr>pageContent = JStr ''Creates an order.'', metadata = JObj [(''type'', JStr ''description'')]\<rparr>,
      \<lparr>pageContent = JStr ''sku=1'', metadata = JObj [(''type'', JStr ''body'')]\<rparr>]"

definition example_items :: "jsval list" where
  "example_items =
     [JObj [(''name'', JStr ''Login'')],
      JObj [(''name'', JStr ''Orders''),
            (''item'', JArr [JObj [(''name'', JStr ''Create Order'')],
                             JObj [(''name'', JStr ''Empty''), (''item'', JArr [])],
                             JObj [(''name'', JStr ''Returns''),
                                   (''item'', JArr [JObj [(''name'', JStr ''Create Return'')]])]])],
      JObj [(''name'', JStr ''Logout''), (''item'', JNull)]]"

definition example_url :: jsval where
  "example_url = JObj [(''host'', JArr [JStr ''api'', JStr ''example'', JStr ''com'']),
                       (''path'', JArr [JStr ''v1'', JStr ''orders''])]"

text \<open>
  A world whose language model fails the first time it is called and answers afterwards,
  and three endpoints: one described by a string, one described by an object, and one with
  a body and no description.
\<close>

definition flaky_env :: env where
  "flaky_env =
     (shop_env (Inr JNull) (Inr []))
       \<lparr>llm_invoke := (\<lambda>h model prompt. if h = [] then Inl (Failure ''429'')
                                          else Inr '' Used to list orders. '')\<rparr>"

definition ping_endpoint :: jsval where
  "ping_endpoint =
     JObj [(''name'', JStr ''Ping''),
           (''request'', JObj [(''url'', JStr ''https://api.shop.test/ping''),
                               (''description'', JStr ''Checks the service.'')])]"

definition orders_endpoint :: jsval where
  "orders_endpoint =
     JObj [(''name'', JStr ''Orders''),
           (''request'', JObj [(''url'', JObj [(''host'', JArr [JStr ''api'', JStr ''shop'']),
                                               (''path'', JArr [JStr ''orders''])]),
                               (''description'', JObj [(''content'', JStr ''Lists orders.'')])])]"

definition upload_endpoint :: jsval where
  "upload_endpoint =
     JObj [(''name'', JStr ''Upload''),
           (''request'', JObj [(''url'', JStr ''https://api.shop.test/upload''),
                               (''body'', JObj [(''raw'', JStr ''file=1'')])])]"

text \<open>
  Two first calls of \<^verbatim>\<open>generateCodeLogic\<close> in an empty storage directory: the model
  answers with a fenced snippet, or with an empty fence. \<open>generation_calls code\<close> are the
  calls such a first call makes when \<open>code\<close> is the snippet it caches.
\<close>

definition fenced_answer :: string where
  "fenced_answer = fence @ ''python'' @ newline @ ''print(1)'' @ newline @ fence"

definition first_generation :: "(error + string) \<times> call list" where
  "first_generation =
     generateCodeLogic (shop_env (Inr JNull) (Inr fenced_answer)) ''/storage'' ''Create Order''
       ''codepilot_shop'' ''python'' []"

definition empty_generation :: "(error + string) \<times> call list" where
  "empty_generation =
     generateCodeLogic (shop_env (Inr JNull) (Inr (fence @ newline @ fence))) ''/storage''
       ''Create Order'' ''codepilot_shop'' ''python'' []"

definition generation_calls :: "string \<Rightarrow> call list" where
  "generation_calls code =
     [ExistsSync ''/storage/generated_code'', MkdirSync ''/storage/generated_code'',
      ExistsSync ''/storage/generated_code/Create_Order_python.txt'', GetApiKey,
      ShowInputBox (''Generate python code for '' @ quote @ ''Create Order'' @ quote)
        (''e.g., '' @ quote @ ''with error handling'' @ quote),
      Connect ''/storage/codepilot_shop'', OpenTable ''codepilot_shop'',
      EmbedQuery ''Create Order with error handling'', Search [1] 4,
      LlmInvoke ''gpt-4o'' (generate_prompt ''python'' ''Create Order with error handling''),
      ExistsSync ''/storage/generated_code'',
      WriteFileSync ''/storage/generated_code/Create_Order_python.txt'' code]"

section \<open>Flattening returns the leaves\<close>

declare leaves.simps [simp del]

lemma leaves_folder: "is_folder v \<Longrightarrow> leaves v = leaf_items (children v)"
  by (subst leaves.simps) (simp add: leaf_items_def)

lemma leaves_leaf: "\<not> is_folder v \<Longrightarrow> leaves v = [v]"
  by (subst leaves.simps) simp

lemma nullish_not_folder: "nullish v \<Longrightarrow> \<not> is_folder v"
  by (cases v) (auto simp: is_folder_def)

lemma is_array_truthy: "is_array v \<Longrightarrow> truthy v"
  by (cases v) auto

lemma leaf_items_Cons: "leaf_items (x # xs) = leaves x @ leaf_items xs"
  by (simp add: leaf_items_def)

text \<open>
  The loop appends the leaves of the remaining items to \<^verbatim>\<open>out\<close>, and raises exactly when
  one of those leaves is \<^verbatim>\<open>null\<close> or \<^verbatim>\<open>undefined\<close>.
\<close>

lemma flatten_loop_leaf_items:
  "flatten_loop items out =
     (if \<exists>x\<in>set (leaf_items items). nullish x then Inl TypeError
      else Inr (out @ leaf_items items))"
proof (induction items out rule: flatten_loop.induct)
  case (1 out)
  show ?case by (simp add: leaf_items_def)
next
  case (2 item items out)
  show ?case
  proof (cases "nullish item")
    case True
    then have "leaves item = [item]" by (simp add: leaves_leaf nullish_not_folder)
    with True show ?thesis by (simp add: leaf_items_Cons)
  next
    case nn: False
    show ?thesis
    proof (cases "is_folder item")
      case True
      then have arr: "truthy (member item ''item'') \<and> is_array (member item ''item'')"
        by (simp add: is_folder_def is_array_truthy)
      have l: "leaves item = leaf_items (children item)" by (rule leaves_folder [OF True])
      have ih1: "flatten_loop (children item) [] =
          (if \<exists>x\<in>set (leaf_items (children item)). nullish x then Inl TypeError
           else Inr (leaf_items (children item)))"
        using "2.IH"(1) [OF nn arr] by (simp add: children_def)
      show ?thesis
      proof (cases "\<exists>x\<in>set (leaf_items (children item)). nullish x")
        case True
        with nn arr l ih1 show ?thesis
          by (auto simp: leaf_items_Cons children_def)
      next
        case False
        with ih1 have inner:
          "flatten_loop (elements (member item ''item'')) [] = Inr (leaf_items (children item))"
          by (simp add: children_def)
        from "2.IH"(2) [OF nn arr inner] nn arr inner l False show ?thesis
          by (auto simp: leaf_items_Cons)
      qed
    next
      case False
      then have l: "leaves item = [item]" by (simp add: leaves_leaf)
      from False have nf: "\<not> (truthy (member item ''item'') \<and> is_array (member item ''item''))"
        by (simp add: is_folder_def)
      from "2.IH"(3) [OF nn nf] nn nf l show ?thesis
        by (auto simp: leaf_items_Cons)
    qed
  qed
qed

lemma leaves_no_folder: "x \<in> set (leaves v) \<Longrightarrow> \<not> is_folder x"
proof (induction v arbitrary: x rule: leaves.induct)
  case (1 v)
  show ?case
  proof (cases "is_folder v")
    case True
    with "1.prems" obtain c where "c \<in> set (children v)" "x \<in> set (leaves c)"
      by (subst (asm) leaves.simps) auto
    with "1.IH" True show ?thesis by blast
  next
    case False
    with "1.prems" show ?thesis by (simp add: leaves_leaf)
  qed
qed

text \<open>
  Claim C1. For every Postman items array, that is an array whose items, at every depth,
  are values other than \<^verbatim>\<open>null\<close> and \<^verbatim>\<open>undefined\<close>, \<^verbatim>\<open>flattenEndpoints\<close> returns exactly
  the leaf items (those whose \<^verbatim>\<open>item\<close> field is not an array) in depth-first
  left-to-right order, having recursed into every item whose \<^verbatim>\<open>item\<close> field is an array,
  and no folder is in the output.
\<close>

theorem flattenEndpoints_leaf_items:
  assumes "\<forall>x\<in>set (leaf_items items). \<not> nullish x"
  shows "flattenEndpoints (JArr items) = Inr (leaf_items items) \<and>
         (\<forall>x\<in>set (leaf_items items). \<not> is_folder x)"
proof -
  have "flatten_loop items [] = Inr (leaf_items items)"
    using assms by (simp add: flatten_loop_leaf_items)
  moreover have "\<forall>x\<in>set (leaf_items items). \<not> is_folder x"
    by (auto simp: leaf_items_def dest: leaves_no_folder)
  ultimately show ?thesis by (simp add: flattenEndpoints_def)
qed

lemma example_leaf_items:
  "leaf_items example_items =
     [JObj [(''name'', JStr ''Login'')], JObj [(''name'', JStr ''Create Order'')],
      JObj [(''name'', JStr ''Create Return'')],
      JObj [(''name'', JStr ''Logout''), (''item'', JNull)]]"
  by (simp add: example_items_def leaf_items_def leaves.simps is_folder_def children_def)

theorem flattenEndpoints_leaf_items_witness:
  "list_all (\<lambda>x. \<not> nullish x) (leaf_items example_items) \<and>
   list_all (\<lambda>x. \<not> is_folder x) (leaf_items example_items) \<and>
   flattenEndpoints (JArr example_items) =
     Inr [JObj [(''name'', JStr ''Login'')], JObj [(''name'', JStr ''Create Order'')],
          JObj [(''name'', JStr ''Create Return'')],
          JObj [(''name'', JStr ''Logout''), (''item'', JNull)]]"
proof -
  have h: "\<forall>x\<in>set (leaf_items example_items). \<not> nullish x"
    by (simp add: example_leaf_items)
  show ?thesis
    using h flattenEndpoints_leaf_items [OF h]
    by (simp add: example_leaf_items list_all_iff)
qed

section \<open>The URL of an endpoint, case by case\<close>

text \<open>
  Claim C8, as amended. \<^verbatim>\<open>constructUrlFromPostman\<close> returns the empty string on a falsy
  input (\<^verbatim>\<open>null\<close> and \<^verbatim>\<open>undefined\<close> among them), the input itself on a string,
  \<^verbatim>\<open>urlData.raw\<close> on an object with a truthy \<^verbatim>\<open>raw\<close>, and the empty string on a truthy
  value that is neither a string nor an object. On an object with a falsy \<^verbatim>\<open>raw\<close> it
  takes \<^verbatim>\<open>host\<close> and then \<^verbatim>\<open>path\<close>, each as the empty list when it is falsy, and joins
  the host with a dot and the path with a slash:

    \<^item> when both are lists whose elements convert to strings and the joined host is not
      empty, it returns \<^verbatim>\<open><protocol>://<host>/<path>\<close>, provided the protocol, \<^verbatim>\<open>https\<close>
      when it is falsy, converts to a string, and raises the error of that conversion
      otherwise;

    \<^item> when both are lists whose elements convert to strings and the joined host is
      empty, it returns the empty string;

    \<^item> when the host, or with such a host the path, is truthy and no array, it raises a
      \<^verbatim>\<open>TypeError\<close>;

    \<^item> when an element of the host, or with such a host an element of the path, does not
      convert to a string, it raises the error of that conversion.

  So the function is not total: these cases cover every input, and three of them raise.
\<close>

theorem constructUrlFromPostman_cases:
  "(\<not> truthy u \<longrightarrow> constructUrlFromPostman env u = Inr (JStr [])) \<and>
   (is_string u \<longrightarrow> constructUrlFromPostman env u = Inr u) \<and>
   (is_object u \<and> truthy (member u ''raw'') \<longrightarrow>
      constructUrlFromPostman env u = Inr (member u ''raw'')) \<and>
   (is_object u \<and> \<not> truthy (member u ''raw'') \<and>
    js_or (member u ''host'') (JArr []) = JArr hs \<and> js_join env ''.'' hs = Inr host \<and>
    js_or (member u ''path'') (JArr []) = JArr ps \<and> js_join env ''/'' ps = Inr path \<and>
    host \<noteq> [] \<and>
    js_toString env (js_or (member u ''protocol'') (JStr ''https'')) = Inr protocol \<longrightarrow>
      constructUrlFromPostman env u = Inr (JStr (protocol @ ''://'' @ host @ ''/'' @ path))) \<and>
   (is_object u \<and> \<not> truthy (member u ''raw'') \<and>
    js_or (member u ''host'') (JArr []) = JArr hs \<and> js_join env ''.'' hs = Inr [] \<and>
    js_or (member u ''path'') (JArr []) = JArr ps \<and> js_join env ''/'' ps = Inr path \<longrightarrow>
      constructUrlFromPostman env u = Inr (JStr [])) \<and>
   (truthy u \<and> \<not> is_string u \<and> \<not> is_object u \<longrightarrow>
      constructUrlFromPostman env u = Inr (JStr [])) \<and>
   (is_object u \<and> \<not> truthy (member u ''raw'') \<and>
    truthy (member u ''host'') \<and> \<not> is_array (member u ''host'') \<longrightarrow>
      constructUrlFromPostman env u = Inl TypeError) \<and>
   (is_object u \<and> \<not> truthy (member u ''raw'') \<and>
    js_or (member u ''host'') (JArr []) = JArr hs \<and> js_join env ''.'' hs = Inl e \<longrightarrow>
      constructUrlFromPostman env u = Inl e) \<and>
   (is_object u \<and> \<not> truthy (member u ''raw'') \<and>
    js_or (member u ''host'') (JArr []) = JArr hs \<and> js_join env ''.'' hs = Inr host \<and>
    truthy (member u ''path'') \<and> \<not> is_array (member u ''path'') \<longrightarrow>
      constructUrlFromPostman env u = Inl TypeError) \<and>
   (is_object u \<and> \<not> truthy (member u ''raw'') \<and>
    js_or (member u ''host'') (JArr []) = JArr hs \<and> js_join env ''.'' hs = Inr host \<and>
    js_or (member u ''path'') (JArr []) = JArr ps \<and> js_join env ''/'' ps = Inl e \<longrightarrow>
      constructUrlFromPostman env u = Inl e) \<and>
   (is_object u \<and> \<not> truthy (member u ''raw'') \<and>
    js_or (member u ''host'') (JArr []) = JArr hs \<and> js_join env ''.'' hs = Inr host \<and>
    js_or (member u ''path'') (JArr []) = JArr ps \<and> js_join env ''/'' ps = Inr path \<and>
    host \<noteq> [] \<and>
    js_toString env (js_or (member u ''protocol'') (JStr ''https'')) = Inl e \<longrightarrow>
      constructUrlFromPostman env u = Inl e)"
proof (intro conjI impI)
  assume "\<not> truthy u"
  then show "constructUrlFromPostman env u = Inr (JStr [])"
    by (simp add: constructUrlFromPostman_def)
next
  assume "is_string u"
  then show "constructUrlFromPostman env u = Inr u"
    by (cases u) (simp_all add: constructUrlFromPostman_def)
next
  assume "is_object u \<and> truthy (member u ''raw'')"
  then show "constructUrlFromPostman env u = Inr (member u ''raw'')"
    by (cases u) (simp_all add: constructUrlFromPostman_def)
next
  assume a: "is_object u \<and> \<not> truthy (member u ''raw'') \<and>
    js_or (member u ''host'') (JArr []) = JArr hs \<and> js_join env ''.'' hs = Inr host \<and>
    js_or (member u ''path'') (JArr []) = JArr ps \<and> js_join env ''/'' ps = Inr path \<and>
    host \<noteq> [] \<and>
    js_toString env (js_or (member u ''protocol'') (JStr ''https'')) = Inr protocol"
  then have "truthy u" "\<not> is_string u" by (cases u; simp)+
  with a show "constructUrlFromPostman env u
      = Inr (JStr (protocol @ ''://'' @ host @ ''/'' @ path))"
    by (simp add: constructUrlFromPostman_def)
next
  assume a: "is_object u \<and> \<not> truthy (member u ''raw'') \<and>
    js_or (member u ''host'') (JArr []) = JArr hs \<and> js_join env ''.'' hs = Inr [] \<and>
    js_or (member u ''path'') (JArr []) = JArr ps \<and> js_join env ''/'' ps = Inr path"
  then have "truthy u" "\<not> is_string u" by (cases u; simp)+
  with a show "constructUrlFromPostman env u = Inr (JStr [])"
    by (simp add: constructUrlFromPostman_def)
next
  assume "truthy u \<and> \<not> is_string u \<and> \<not> is_object u"
  then show "constructUrlFromPostman env u = Inr (JStr [])"
    by (simp add: constructUrlFromPostman_def)
next
  assume a: "is_object u \<and> \<not> truthy (member u ''raw'') \<and>
    truthy (member u ''host'') \<and> \<not> is_array (member u ''host'')"
  then have "truthy u" "\<not> is_string u" by (cases u; simp)+
  moreover from a have "call_join env (member u ''host'') ''.'' = Inl TypeError"
    by (cases "member u ''host''") simp_all
  ultimately show "constructUrlFromPostman env u = Inl TypeError"
    using a by (simp add: constructUrlFromPostman_def js_or_def)
next
  assume a: "is_object u \<and> \<not> truthy (member u ''raw'') \<and>
    js_or (member u ''host'') (JArr []) = JArr hs \<and> js_join env ''.'' hs = Inl e"
  then have "truthy u" "\<not> is_string u" by (cases u; simp)+
  with a show "constructUrlFromPostman env u = Inl e"
    by (simp add: constructUrlFromPostman_def)
next
  assume a: "is_object u \<and> \<not> truthy (member u ''raw'') \<and>
    js_or (member u ''host'') (JArr []) = JArr hs \<and> js_join env ''.'' hs = Inr host \<and>
    truthy (member u ''path'') \<and> \<not> is_array (member u ''path'')"
  then have "truthy u" "\<not> is_string u" by (cases u; simp)+
  moreover from a have "call_join env (js_or (member u ''path'') (JArr [])) ''/'' = Inl TypeError"
    by (cases "member u ''path''") (simp_all add: js_or_def)
  ultimately show "constructUrlFromPostman env u = Inl TypeError"
    using a by (simp add: constructUrlFromPostman_def)
next
  assume a: "is_object u \<and> \<not> truthy (member u ''raw'') \<and>
    js_or (member u ''host'') (JArr []) = JArr hs \<and> js_join env ''.'' hs = Inr host \<and>
    js_or (member u ''path'') (JArr []) = JArr ps \<and> js_join env ''/'' ps = Inl e"
  then have "truthy u" "\<not> is_string u" by (cases u; simp)+
  with a show "constructUrlFromPostman env u = Inl e"
    by (simp add: constructUrlFromPostman_def)
next
  assume a: "is_object u \<and> \<not> truthy (member u ''raw'') \<and>
    js_or (member u ''host'') (JArr []) = JArr hs \<and> js_join env ''.'' hs = Inr host \<and>
    js_or (member u ''path'') (JArr []) = JArr ps \<and> js_join env ''/'' ps = Inr path \<and>
    host \<noteq> [] \<and>
    js_toString env (js_or (member u ''protocol'') (JStr ''https'')) = Inl e"
  then have "truthy u" "\<not> is_string u" by (cases u; simp)+
  with a show "constructUrlFromPostman env u = Inl e"
    by (simp add: constructUrlFromPostman_def)
qed

text \<open>
  Claim C8 as stated fails: a \<^verbatim>\<open>host\<close> given as one string, which a Postman collection
  may hold, has no \<^verbatim>\<open>join\<close> method.
\<close>

theorem constructUrlFromPostman_throws:
  "\<forall>env. constructUrlFromPostman env
            (JObj [(''host'', JStr ''example.com''), (''path'', JArr [JStr ''orders''])])
          = Inl TypeError"
  by (simp add: constructUrlFromPostman_def js_or_def)

theorem constructUrlFromPostman_cases_witness:
  "constructUrlFromPostman (shop_env (Inr JNull) (Inr [])) JNull = Inr (JStr []) \<and>
   constructUrlFromPostman (shop_env (Inr JNull) (Inr [])) (JStr ''http://x/y'')
     = Inr (JStr ''http://x/y'') \<and>
   constructUrlFromPostman (shop_env (Inr JNull) (Inr []))
       (JObj [(''raw'', JStr ''http://x/y''), (''host'', JStr ''x'')])
     = Inr (JStr ''http://x/y'') \<and>
   constructUrlFromPostman (shop_env (Inr JNull) (Inr [])) example_url
     = Inr (JStr ''https://api.example.com/v1/orders'') \<and>
   constructUrlFromPostman (shop_env (Inr JNull) (Inr []))
       (JObj [(''host'', JArr [JStr ''localhost'']),
              (''path'', JArr [JStr ''orders'', JNum (Finite 7)]), (''protocol'', JStr ''http'')])
     = Inr (JStr ''http://localhost/orders/7'') \<and>
   constructUrlFromPostman (shop_env (Inr JNull) (Inr [])) (JObj [(''path'', JArr [JStr ''orders''])])
     = Inr (JStr []) \<and>
   constructUrlFromPostman (shop_env (Inr JNull) (Inr [])) (JNum (Finite 7)) = Inr (JStr []) \<and>
   constructUrlFromPostman (shop_env (Inr JNull) (Inr [])) (JObj [(''host'', JNum (Finite 7))])
     = Inl TypeError \<and>
   constructUrlFromPostman (shop_env (Inr JNull) (Inr []))
       (JObj [(''host'', JArr [JObj [(''toString'', JNum (Finite 1))]])])
     = Inl TypeError \<and>
   constructUrlFromPostman (shop_env (Inr JNull) (Inr []))
       (JObj [(''host'', JArr [JStr ''h'']), (''path'', JStr ''orders'')])
     = Inl TypeError \<and>
   constructUrlFromPostman (shop_env (Inr JNull) (Inr []))
       (JObj [(''host'', JArr [JStr ''h'']), (''path'', JArr [JObj [(''toString'', JNull)]])])
     = Inl TypeError \<and>
   constructUrlFromPostman (shop_env (Inr JNull) (Inr []))
       (JObj [(''protocol'', JObj [(''toString'', JNum (Finite 1))]), (''host'', JArr [JStr ''h''])])
     = Inl TypeError"
  using constructUrlFromPostman_cases [of JNull "shop_env (Inr JNull) (Inr [])"]
    constructUrlFromPostman_cases [of "JStr ''http://x/y''" "shop_env (Inr JNull) (Inr [])"]
    constructUrlFromPostman_cases
      [of "JObj [(''raw'', JStr ''http://x/y''), (''host'', JStr ''x'')]"
          "shop_env (Inr JNull) (Inr [])"]
    constructUrlFromPostman_cases [where env = "shop_env (Inr JNull) (Inr [])"
       and u = example_url
       and hs = "[JStr ''api'', JStr ''example'', JStr ''com'']" and host = "''api.example.com''"
       and ps = "[JStr ''v1'', JStr ''orders'']" and path = "''v1/orders''"
       and protocol = "''https''"]
    constructUrlFromPostman_cases [where env = "shop_env (Inr JNull) (Inr [])"
       and u = "JObj [(''host'', JArr [JStr ''localhost'']),
                      (''path'', JArr [JStr ''orders'', JNum (Finite 7)]),
                      (''protocol'', JStr ''http'')]"
       and hs = "[JStr ''localhost'']" and host = "''localhost''"
       and ps = "[JStr ''orders'', JNum (Finite 7)]" and path = "''orders/7''"
       and protocol = "''http''"]
    constructUrlFromPostman_cases [where env = "shop_env (Inr JNull) (Inr [])"
       and u = "JObj [(''path'', JArr [JStr ''orders''])]"
       and hs = "[]" and ps = "[JStr ''orders'']" and path = "''orders''"]
    constructUrlFromPostman_cases [of "JNum (Finite 7)" "shop_env (Inr JNull) (Inr [])"]
    constructUrlFromPostman_cases [of "JObj [(''host'', JNum (Finite 7))]"
       "shop_env (Inr JNull) (Inr [])"]
    constructUrlFromPostman_cases [where env = "shop_env (Inr JNull) (Inr [])"
       and u = "JObj [(''host'', JArr [JObj [(''toString'', JNum (Finite 1))]])]"
       and hs = "[JObj [(''toString'', JNum (Finite 1))]]" and e = TypeError]
    constructUrlFromPostman_cases [where env = "shop_env (Inr JNull) (Inr [])"
       and u = "JObj [(''host'', JArr [JStr ''h'']), (''path'', JStr ''orders'')]"
       and hs = "[JStr ''h'']" and host = "''h''"]
    constructUrlFromPostman_cases [where env = "shop_env (Inr JNull) (Inr [])"
       and u = "JObj [(''host'', JArr [JStr ''h'']),
                      (''path'', JArr [JObj [(''toString'', JNull)]])]"
       and hs = "[JStr ''h'']" and host = "''h''"
       and ps = "[JObj [(''toString'', JNull)]]" and e = TypeError]
    constructUrlFromPostman_cases [where env = "shop_env (Inr JNull) (Inr [])"
       and u = "JObj [(''protocol'', JObj [(''toString'', JNum (Finite 1))]),
                      (''host'', JArr [JStr ''h''])]"
       and hs = "[JStr ''h'']" and host = "''h''" and ps = "[]" and path = "[]"
       and e = TypeError]
  by (simp add: example_url_def js_or_def js_join_def shop_env_def)

section \<open>Computations and the calls they make\<close>

lemma io_bind_return: "io_bind (io_return x) f h = f x h"
  by (simp add: io_bind_def io_return_def)

lemma io_bind_lift:
  "io_bind (io_lift r) f h = (case r of Inl e \<Rightarrow> (Inl e, h) | Inr x \<Rightarrow> f x h)"
  by (simp add: io_bind_def io_lift_def split: sum.splits)

lemma io_bind_call:
  "io_bind (io_call c a) f h =
     (case a h of Inl e \<Rightarrow> (Inl e, h @ [c]) | Inr x \<Rightarrow> f x (h @ [c]))"
  by (simp add: io_bind_def io_call_def split: sum.splits)

lemma io_bind_exists:
  "io_bind (fs_existsSync env p) f h = f (existsSync env h p) (h @ [ExistsSync p])"
  by (simp add: fs_existsSync_def io_bind_call)

lemma io_catch_default: "\<exists>b. fst (io_catch m (\<lambda>e. io_return d) h) = Inr b"
  by (cases "m h") (auto simp: io_catch_def io_return_def split: sum.splits)

lemma calls_only_return: "calls_only P (io_return x)"
  by (simp add: calls_only_def io_return_def)

lemma calls_only_throw: "calls_only P (io_throw e)"
  by (simp add: calls_only_def io_throw_def)

lemma calls_only_lift: "calls_only P (io_lift r)"
  by (simp add: calls_only_def io_lift_def)

lemma calls_only_call: "P c \<Longrightarrow> calls_only P (io_call c a)"
  by (simp add: calls_only_def io_call_def)

lemma calls_only_bind:
  assumes m: "calls_only P m" and f: "\<And>x. calls_only P (f x)"
  shows "calls_only P (io_bind m f)"
  unfolding calls_only_def
proof
  fix h
  obtain r h1 where mh: "m h = (r, h1)" by (cases "m h")
  from m mh obtain cs where cs: "h1 = h @ cs" "list_all P cs"
    by (auto simp: calls_only_def dest: spec [of _ h])
  show "\<exists>ds. snd (io_bind m f h) = h @ ds \<and> list_all P ds"
  proof (cases r)
    case (Inl e)
    with mh cs show ?thesis by (auto simp: io_bind_def)
  next
    case (Inr x)
    from f [of x] obtain ds where ds: "snd (f x h1) = h1 @ ds" "list_all P ds"
      by (auto simp: calls_only_def dest: spec [of _ h1])
    with Inr mh cs show ?thesis by (auto simp: io_bind_def)
  qed
qed

lemma calls_only_catch:
  assumes m: "calls_only P m" and g: "\<And>e. calls_only P (g e)"
  shows "calls_only P (io_catch m g)"
  unfolding calls_only_def
proof
  fix h
  obtain r h1 where mh: "m h = (r, h1)" by (cases "m h")
  from m mh obtain cs where cs: "h1 = h @ cs" "list_all P cs"
    by (auto simp: calls_only_def dest: spec [of _ h])
  show "\<exists>ds. snd (io_catch m g h) = h @ ds \<and> list_all P ds"
  proof (cases r)
    case (Inr x)
    with mh cs show ?thesis by (auto simp: io_catch_def)
  next
    case (Inl e)
    from g [of e] obtain ds where ds: "snd (g e h1) = h1 @ ds" "list_all P ds"
      by (auto simp: calls_only_def dest: spec [of _ h1])
    with Inl mh cs show ?thesis by (auto simp: io_catch_def)
  qed
qed

lemma calls_only_if:
  "calls_only P a \<Longrightarrow> calls_only P b \<Longrightarrow> calls_only P (if c then a else b)"
  by simp

lemmas calls_only_intros =
  calls_only_bind calls_only_catch calls_only_if calls_only_return calls_only_throw
  calls_only_lift calls_only_call

lemma enhanceDescription_calls: "calls_only is_llm_call (enhanceDescription env desc name company)"
  unfolding enhanceDescription_def Let_def
  by (intro calls_only_intros) simp

lemma endpoint_documents_calls: "calls_only is_llm_call (endpoint_documents env company ep)"
  unfolding endpoint_documents_def Let_def
  by (intro calls_only_intros enhanceDescription_calls)

lemma documents_loop_calls: "calls_only is_llm_call (documents_loop env company eps acc)"
  by (induction eps arbitrary: acc)
     (auto intro!: calls_only_intros endpoint_documents_calls)

lemma createDocuments_calls:
  "calls_only is_llm_call (createDocumentsFromEndpoints env eps company)"
  by (simp add: createDocumentsFromEndpoints_def documents_loop_calls)

lemma io_bind_assoc: "io_bind (io_bind m f) g = io_bind m (\<lambda>x. io_bind (f x) g)"
  by (auto simp: io_bind_def fun_eq_iff split: sum.splits prod.splits)

lemma io_return_apply: "io_return x h = (Inr x, h)"
  by (simp add: io_return_def)

lemmas io_defs = io_bind_def io_call_def io_lift_def io_return_def io_catch_def io_throw_def
  fs_existsSync_def

lemmas ingest_defs = run_def run_steps_def createAndSaveLanceDBStore_def
  createDocumentsFromEndpoints_def endpoint_documents_def endpoint_name_def endpoint_method_def enhanceDescription_def enhance_prompt_def
  flattenEndpoints_def get_prop_def js_or_def constructUrlFromPostman_def contentWithUrl_def
  descriptionText_def baseMeta_def table_data_def index_def ascii_trim_def ascii_upper_def
  upper_char_def is_space_def newline_def Let_def

section \<open>Running the pipeline\<close>

lemma run_exists:
  assumes "existsSync env h (path_join env storagePath collectionName)"
  shows "run env postmanPath collectionName company storagePath h =
           (Inr True, h @ [ExistsSync (path_join env storagePath collectionName)])"
  using assms by (simp add: run_def Let_def io_bind_exists io_return_def)

lemma run_total: "\<exists>b. fst (run env pp cn co sp h) = Inr b"
proof (cases "existsSync env h (path_join env sp cn)")
  case True
  then show ?thesis by (auto simp: run_exists)
next
  case False
  then show ?thesis by (simp add: run_def Let_def io_bind_exists io_catch_default)
qed

lemma ingest_total: "\<exists>b. fst (ingestPostmanCollection env pp cn co key sp h) = Inr b"
  unfolding ingestPostmanCollection_def by (rule io_catch_default)

lemma run_True_iff:
  "fst (run env pp cn co sp h) = Inr True \<longleftrightarrow>
     existsSync env h (path_join env sp cn) \<or>
     fst (run_steps env pp cn co sp (h @ [ExistsSync (path_join env sp cn)])) = Inr True"
  by (cases "run_steps env pp cn co sp (h @ [ExistsSync (path_join env sp cn)])")
     (auto simp: run_def Let_def io_bind_exists io_return_def io_catch_def split: sum.splits)

lemma ingest_True_iff:
  "fst (ingestPostmanCollection env pp cn co key sp h) = Inr True \<longleftrightarrow>
     key \<noteq> [] \<and> fst (run env pp cn co sp h) = Inr True"
  by (cases "run env pp cn co sp h")
     (auto simp: ingestPostmanCollection_def new_IngestionTool_def io_catch_def io_bind_def
        io_lift_def io_return_def split: sum.splits)

lemma run_steps_Inr:
  assumes "fst (run_steps env pp cn co sp h) = Inr b"
  shows "\<exists>raw data item eps docs h2 chunks.
           readFileSync env h pp = Inr raw \<and> json_parse env raw = Inr data \<and>
           get_prop data ''item'' = Inr item \<and>
           flattenEndpoints (js_or item (JArr [])) = Inr eps \<and>
           createDocumentsFromEndpoints env eps co (h @ [ReadFileSync pp]) = (Inr docs, h2) \<and>
           splitDocuments env docs = Inr chunks \<and>
           fst (createAndSaveLanceDBStore env chunks cn sp h2) = Inr ()"
  using assms
  by (auto simp: run_steps_def io_bind_def io_call_def io_lift_def io_return_def
      split: sum.splits prod.splits)

lemma createAndSave_Inr:
  assumes "fst (createAndSaveLanceDBStore env chunks cn sp h) = Inr u" and "chunks \<noteq> []"
  shows "\<exists>vectors.
           embedDocuments env (store_prefix env h (path_join env sp cn)) (map pageContent chunks)
             = Inr vectors \<and>
           connect env (store_prefix env h (path_join env sp cn)
                          @ [EmbedDocuments (map pageContent chunks)]) (path_join env sp cn)
             = Inr () \<and>
           createTable env (store_prefix env h (path_join env sp cn)
                          @ [EmbedDocuments (map pageContent chunks),
                             Connect (path_join env sp cn)]) cn (table_data chunks vectors)
             = Inr ()"
  using assms
  by (auto simp: createAndSaveLanceDBStore_def Let_def fs_existsSync_def io_bind_def
        io_call_def io_return_def store_prefix_def split: sum.splits if_splits)

lemma createAndSave_rows:
  assumes "chunks \<noteq> []"
    and "existsSync env h (path_join env sp cn) \<longrightarrow>
         rmSync env (h @ [ExistsSync (path_join env sp cn)]) (path_join env sp cn) = Inr ()"
    and "embedDocuments env (store_prefix env h (path_join env sp cn)) (map pageContent chunks)
           = Inr vectors"
    and "connect env (store_prefix env h (path_join env sp cn)
                        @ [EmbedDocuments (map pageContent chunks)]) (path_join env sp cn)
           = Inr ()"
  shows "createAndSaveLanceDBStore env chunks cn sp h =
           (createTable env (store_prefix env h (path_join env sp cn)
                          @ [EmbedDocuments (map pageContent chunks),
                             Connect (path_join env sp cn)]) cn (table_data chunks vectors),
            store_prefix env h (path_join env sp cn)
              @ [EmbedDocuments (map pageContent chunks), Connect (path_join env sp cn),
                 CreateTable cn (table_data chunks vectors)])"
  using assms
  by (auto simp: createAndSaveLanceDBStore_def Let_def fs_existsSync_def io_bind_def
        io_call_def io_return_def store_prefix_def split: sum.splits if_splits)

lemma table_data_nth:
  "length (table_data chunks vectors) = length chunks \<and>
   (\<forall>i<length chunks. table_data chunks vectors ! i =
        (pageContent (chunks ! i), metadata (chunks ! i), index vectors i))"
  by (simp add: table_data_def)

lemma table_data_aligned:
  "length vectors = length chunks \<Longrightarrow>
   table_data chunks vectors =
     map (\<lambda>(chunk, v). (pageContent chunk, metadata chunk, Some v)) (zip chunks vectors)"
  by (rule nth_equalityI) (simp_all add: table_data_def index_def)

lemma createAndSave_empty:
  assumes "\<not> existsSync env h (path_join env sp cn)"
  shows "createAndSaveLanceDBStore env [] cn sp h = (Inr (), h @ [ExistsSync (path_join env sp cn)])"
  using assms
  by (simp add: createAndSaveLanceDBStore_def Let_def fs_existsSync_def io_bind_def
        io_call_def io_return_def)

lemma run_steps_result:
  assumes "readFileSync env h pp = Inr raw"
      and "json_parse env raw = Inr data"
      and "get_prop data ''item'' = Inr item"
      and "flattenEndpoints (js_or item (JArr [])) = Inr eps"
      and "createDocumentsFromEndpoints env eps co (h @ [ReadFileSync pp]) = (Inr docs, h2)"
      and "splitDocuments env docs = Inr chunks"
      and "createAndSaveLanceDBStore env chunks cn sp h2 = (Inr (), h3)"
  shows "run_steps env pp cn co sp h = (Inr True, h3)"
  using assms
  by (simp add: run_steps_def io_bind_def io_call_def io_lift_def io_return_def)

text \<open>
  Claim C3, as amended. For every call where the directory \<^verbatim>\<open>storagePath/collectionName\<close>
  already exists, \<^verbatim>\<open>run\<close> returns true at once and the existence check is the only call
  it makes: no file is read, nothing is flattened, enhanced or embedded, no table is
  created and nothing is removed. So a second run with the same arguments is a no-op
  returning true whenever the directory is there when it starts (take for \<open>h\<close> the calls
  made up to the end of the first run).
\<close>

theorem run_existing_store:
  assumes "existsSync env h (path_join env storagePath collectionName)"
  shows "run env postmanPath collectionName company storagePath h =
           (Inr True, h @ [ExistsSync (path_join env storagePath collectionName)])"
  using assms by (simp add: run_def Let_def io_bind_exists io_return_def)

lemma first_run_calls:
  "snd first_run =
  [ExistsSync ''/storage/codepilot_shop'', ReadFileSync ''/docs/shop.json'',
   LlmInvoke ''gpt-3.5-turbo''
    (enhance_prompt (''Endpoint URL: https://api.shop.test/orders'' @ newline @ newline
                     @ ''Creates an order.'') ''Create Order'' ''Shop''),
   ExistsSync ''/storage/codepilot_shop'',
   EmbedDocuments
    [JStr ''Used to place orders.'', JStr ''sku=1'', JStr ''created''],
   Connect ''/storage/codepilot_shop'',
   CreateTable ''codepilot_shop''
    [(JStr ''Used to place orders.'',
      JObj
       [(''name'', JStr ''Create Order''), (''company'', JStr ''Shop''),
        (''method'', JStr ''POST''),
        (''url'', JStr ''https://api.shop.test/orders''),
        (''type'', JStr ''description'')],
      Some [1]),
     (JStr ''sku=1'',
      JObj
       [(''name'', JStr ''Create Order''), (''company'', JStr ''Shop''),
        (''method'', JStr ''POST''),
        (''url'', JStr ''https://api.shop.test/orders''),
        (''type'', JStr ''body'')],
      Some [2]),
     (JStr ''created'',
      JObj
       [(''name'', JStr ''Create Order''), (''company'', JStr ''Shop''),
        (''method'', JStr ''POST''),
        (''url'', JStr ''https://api.shop.test/orders''),
        (''type'', JStr ''response''), (''status_code'', JNum (Finite 201))],
      Some [3])]]"
  by (simp add: first_run_def shop_env_def shop_collection_def io_defs ingest_defs)

theorem run_existing_store_witness:
  "fst first_run = Inr True \<and>
   run (shop_env (Inr shop_collection) (Inr '' Used to place orders. ''))
     ''/docs/shop.json'' ''codepilot_shop'' ''Shop'' ''/storage'' (snd first_run) =
   (Inr True, snd first_run @ [ExistsSync ''/storage/codepilot_shop''])"
proof -
  have 1: "fst first_run = Inr True"
    by (simp add: first_run_def shop_env_def shop_collection_def io_defs ingest_defs)
  have 2: "existsSync (shop_env (Inr shop_collection) (Inr '' Used to place orders. ''))
             (snd first_run)
             (path_join (shop_env (Inr shop_collection) (Inr '' Used to place orders. ''))
                ''/storage'' ''codepilot_shop'')"
    by (simp add: first_run_calls) (simp add: shop_env_def)
  show ?thesis
    using 1 run_existing_store [OF 2, of "''/docs/shop.json''" "''Shop''"]
    by (simp add: shop_env_def)
qed

text \<open>
  Claim C3 as stated fails for a first run that succeeds without creating the store. On a
  collection with no items the first run returns true having created nothing, and the
  second run, started after the calls of the first, reads the file again.
\<close>

theorem run_twice_reads_again:
  "run (shop_env (Inr (JObj [(''item'', JArr [])])) (Inr []))
     ''/docs/shop.json'' ''codepilot_shop'' ''Shop'' ''/storage'' [] =
     (Inr True,
      [ExistsSync ''/storage/codepilot_shop'', ReadFileSync ''/docs/shop.json'',
       ExistsSync ''/storage/codepilot_shop'']) \<and>
   run (shop_env (Inr (JObj [(''item'', JArr [])])) (Inr []))
     ''/docs/shop.json'' ''codepilot_shop'' ''Shop'' ''/storage''
     [ExistsSync ''/storage/codepilot_shop'', ReadFileSync ''/docs/shop.json'',
      ExistsSync ''/storage/codepilot_shop''] =
     (Inr True,
      [ExistsSync ''/storage/codepilot_shop'', ReadFileSync ''/docs/shop.json'',
       ExistsSync ''/storage/codepilot_shop'',
       ExistsSync ''/storage/codepilot_shop'', ReadFileSync ''/docs/shop.json'',
       ExistsSync ''/storage/codepilot_shop''])"
  by (simp add: shop_env_def io_defs ingest_defs)

text \<open>
  Claim C9. When the store does not exist, the collection is read, parsed and flattened,
  the documents are created and the text splitter yields zero chunks,
  \<^verbatim>\<open>createAndSaveLanceDBStore\<close> returns after its existence check alone and \<^verbatim>\<open>run\<close> returns
  true: among the calls of the whole run there is no embedding, no connection and no
  table creation, so success is reported though no vector store exists.
\<close>

theorem run_zero_chunks:
  assumes "\<not> existsSync env h (path_join env sp cn)"
      and "readFileSync env (h @ [ExistsSync (path_join env sp cn)]) pp = Inr raw"
      and "json_parse env raw = Inr data"
      and "get_prop data ''item'' = Inr item"
      and "flattenEndpoints (js_or item (JArr [])) = Inr eps"
      and "createDocumentsFromEndpoints env eps co
             (h @ [ExistsSync (path_join env sp cn), ReadFileSync pp]) = (Inr docs, h2)"
      and "splitDocuments env docs = Inr []"
      and "\<not> existsSync env h2 (path_join env sp cn)"
  shows "createAndSaveLanceDBStore env [] cn sp h2 =
           (Inr (), h2 @ [ExistsSync (path_join env sp cn)]) \<and>
         run env pp cn co sp h = (Inr True, h2 @ [ExistsSync (path_join env sp cn)]) \<and>
         (\<exists>cs. h2 @ [ExistsSync (path_join env sp cn)] = h @ cs \<and>
               list_all (\<lambda>c. \<not> is_store_call c) cs)"
proof -
  let ?d = "path_join env sp cn"
  have save: "createAndSaveLanceDBStore env [] cn sp h2 = (Inr (), h2 @ [ExistsSync ?d])"
    by (rule createAndSave_empty [OF assms(8)])
  have "run_steps env pp cn co sp (h @ [ExistsSync ?d]) = (Inr True, h2 @ [ExistsSync ?d])"
    using assms(2-7) save by (intro run_steps_result) simp_all
  then have run: "run env pp cn co sp h = (Inr True, h2 @ [ExistsSync ?d])"
    using assms(1) by (simp add: run_def Let_def io_bind_exists io_catch_def)
  from createDocuments_calls [of env eps co] assms(6)
  obtain cs where cs: "h2 = (h @ [ExistsSync ?d, ReadFileSync pp]) @ cs" "list_all is_llm_call cs"
    by (auto simp: calls_only_def dest: spec [of _ "h @ [ExistsSync ?d, ReadFileSync pp]"])
  have "\<And>c. is_llm_call c \<Longrightarrow> \<not> is_store_call c"
    by (case_tac c) simp_all
  with cs(2) have "list_all (\<lambda>c. \<not> is_store_call c) cs"
    by (auto simp: list_all_iff)
  with cs(1) have "h2 @ [ExistsSync ?d] = h @ ([ExistsSync ?d, ReadFileSync pp] @ cs @ [ExistsSync ?d])
      \<and> list_all (\<lambda>c. \<not> is_store_call c) ([ExistsSync ?d, ReadFileSync pp] @ cs @ [ExistsSync ?d])"
    by simp
  then have "\<exists>cs. h2 @ [ExistsSync ?d] = h @ cs \<and> list_all (\<lambda>c. \<not> is_store_call c) cs"
    by blast
  with save run show ?thesis by simp
qed

theorem run_zero_chunks_witness:
  "run (shop_env (Inr bare_collection) (Inr [])) ''/docs/shop.json'' ''codepilot_shop'' ''Shop''
     ''/storage'' [] =
     (Inr True,
      [ExistsSync ''/storage/codepilot_shop'', ReadFileSync ''/docs/shop.json'',
       ExistsSync ''/storage/codepilot_shop'']) \<and>
   \<not> existsSync (shop_env (Inr bare_collection) (Inr []))
       [ExistsSync ''/storage/codepilot_shop'', ReadFileSync ''/docs/shop.json'',
        ExistsSync ''/storage/codepilot_shop''] ''/storage/codepilot_shop''"
proof -
  let ?env = "shop_env (Inr bare_collection) (Inr [])"
  let ?ep = "JObj [(''name'', JStr ''Ping''),
                   (''request'', JObj [(''method'', JStr ''GET''),
                                       (''url'', JStr ''https://api.shop.test/ping'')])]"
  let ?h2 = "[ExistsSync ''/storage/codepilot_shop'', ReadFileSync ''/docs/shop.json'']"
  have d: "path_join ?env ''/storage'' ''codepilot_shop'' = ''/storage/codepilot_shop''"
    by (simp add: shop_env_def)
  have 1: "\<not> existsSync ?env [] (path_join ?env ''/storage'' ''codepilot_shop'')"
    by (simp add: shop_env_def)
  have 2: "readFileSync ?env ([] @ [ExistsSync (path_join ?env ''/storage'' ''codepilot_shop'')])
             ''/docs/shop.json'' = Inr ''{}''"
    by (simp add: shop_env_def)
  have 3: "json_parse ?env ''{}'' = Inr bare_collection"
    by (simp add: shop_env_def)
  have 4: "get_prop bare_collection ''item'' = Inr (JArr [?ep])"
    by (simp add: bare_collection_def get_prop_def)
  have 5: "flattenEndpoints (js_or (JArr [?ep]) (JArr [])) = Inr [?ep]"
    by (simp add: flattenEndpoints_def js_or_def)
  have 6: "createDocumentsFromEndpoints ?env [?ep] ''Shop''
             ([] @ [ExistsSync (path_join ?env ''/storage'' ''codepilot_shop''),
                    ReadFileSync ''/docs/shop.json'']) = (Inr [], ?h2)"
    by (simp add: shop_env_def io_defs ingest_defs)
  have 7: "splitDocuments ?env [] = Inr []"
    by (simp add: shop_env_def)
  have 8: "\<not> existsSync ?env ?h2 (path_join ?env ''/storage'' ''codepilot_shop'')"
    by (simp add: shop_env_def)
  show ?thesis
    using run_zero_chunks [OF 1 2 3 4 5 6 7 8] 8 by (simp add: d) (simp add: shop_env_def)
qed

text \<open>
  Claim C2. For every non-empty chunk list, once the embedding service has answered with
  \<open>vectors\<close> and the connection is made, \<^verbatim>\<open>createAndSaveLanceDBStore\<close> ends with one call
  creating the table, and returns what that call returns. The rows it passes are one per
  chunk, in order: row \<open>i\<close> holds the page content and the metadata of chunk \<open>i\<close> and
  \<^verbatim>\<open>vectors[i]\<close>, which is the \<open>i\<close>-th embedding when the service returned one vector
  per text. The texts sent to the service are the chunks' page contents, in order.
\<close>

theorem createAndSaveLanceDBStore_rows:
  assumes "chunks \<noteq> []"
    and "existsSync env h (path_join env sp cn) \<longrightarrow>
         rmSync env (h @ [ExistsSync (path_join env sp cn)]) (path_join env sp cn) = Inr ()"
    and "embedDocuments env (store_prefix env h (path_join env sp cn)) (map pageContent chunks)
           = Inr vectors"
    and "connect env (store_prefix env h (path_join env sp cn)
                        @ [EmbedDocuments (map pageContent chunks)]) (path_join env sp cn)
           = Inr ()"
  shows "createAndSaveLanceDBStore env chunks cn sp h =
           (createTable env (store_prefix env h (path_join env sp cn)
                          @ [EmbedDocuments (map pageContent chunks),
                             Connect (path_join env sp cn)]) cn (table_data chunks vectors),
            store_prefix env h (path_join env sp cn)
              @ [EmbedDocuments (map pageContent chunks), Connect (path_join env sp cn),
                 CreateTable cn (table_data chunks vectors)]) \<and>
         length (table_data chunks vectors) = length chunks \<and>
         (\<forall>i<length chunks.
            table_data chunks vectors ! i =
              (pageContent (chunks ! i), metadata (chunks ! i), index vectors i)) \<and>
         (length vectors = length chunks \<longrightarrow>
            table_data chunks vectors =
              map (\<lambda>(chunk, v). (pageContent chunk, metadata chunk, Some v)) (zip chunks vectors))"
  using createAndSave_rows [OF assms] table_data_nth [of chunks vectors]
    table_data_aligned [of vectors chunks]
  by simp

theorem createAndSaveLanceDBStore_rows_witness:
  "snd (createAndSaveLanceDBStore (shop_env (Inr JNull) (Inr [])) two_chunks
          ''codepilot_shop'' ''/storage'' []) =
     [ExistsSync ''/storage/codepilot_shop'',
      EmbedDocuments [JStr ''Creates an order.'', JStr ''sku=1''],
      Connect ''/storage/codepilot_shop'',
      CreateTable ''codepilot_shop''
        [(JStr ''Creates an order.'', JObj [(''type'', JStr ''description'')], Some [1]),
         (JStr ''sku=1'', JObj [(''type'', JStr ''body'')], Some [2])]]"
proof -
  let ?env = "shop_env (Inr JNull) (Inr [])"
  let ?d = "path_join ?env ''/storage'' ''codepilot_shop''"
  have 1: "two_chunks \<noteq> []" by (simp add: two_chunks_def)
  have 2: "existsSync ?env [] ?d \<longrightarrow> rmSync ?env ([] @ [ExistsSync ?d]) ?d = Inr ()"
    by (simp add: shop_env_def)
  have 3: "embedDocuments ?env (store_prefix ?env [] ?d) (map pageContent two_chunks)
             = Inr [[1], [2]]"
    by (simp add: shop_env_def two_chunks_def)
  have 4: "connect ?env (store_prefix ?env [] ?d @ [EmbedDocuments (map pageContent two_chunks)])
             ?d = Inr ()"
    by (simp add: shop_env_def)
  show ?thesis
    using createAndSaveLanceDBStore_rows [OF 1 2 3 4]
    by (simp add: store_prefix_def table_data_def index_def two_chunks_def)
       (simp add: shop_env_def)
qed

text \<open>
  Claim C4. \<^verbatim>\<open>run\<close> and \<^verbatim>\<open>ingestPostmanCollection\<close> never raise: each returns a boolean
  whatever the environment answers. \<^verbatim>\<open>run\<close> returns true only when the store already
  exists or the steps of its \<^verbatim>\<open>try\<close> block complete, and they complete only when the file
  was read, the text parsed, the endpoints flattened, the documents created and split,
  and, for a non-empty chunk list, the embedding, the connection and the table creation
  all returned; in every other case the error is caught and false is returned.
  \<^verbatim>\<open>ingestPostmanCollection\<close> returns true only when the key is not empty and \<^verbatim>\<open>run\<close>
  returns true.
\<close>

theorem run_never_throws:
  "(\<exists>b. fst (run env pp cn co sp h) = Inr b) \<and>
   (\<exists>b. fst (ingestPostmanCollection env pp cn co key sp h) = Inr b) \<and>
   (fst (run env pp cn co sp h) = Inr True \<longleftrightarrow>
      existsSync env h (path_join env sp cn) \<or>
      fst (run_steps env pp cn co sp (h @ [ExistsSync (path_join env sp cn)])) = Inr True) \<and>
   (fst (ingestPostmanCollection env pp cn co key sp h) = Inr True \<longleftrightarrow>
      key \<noteq> [] \<and> fst (run env pp cn co sp h) = Inr True) \<and>
   (fst (run_steps env pp cn co sp h1) = Inr True \<longrightarrow>
      (\<exists>raw data item eps docs h2 chunks.
         readFileSync env h1 pp = Inr raw \<and> json_parse env raw = Inr data \<and>
         get_prop data ''item'' = Inr item \<and>
         flattenEndpoints (js_or item (JArr [])) = Inr eps \<and>
         createDocumentsFromEndpoints env eps co (h1 @ [ReadFileSync pp]) = (Inr docs, h2) \<and>
         splitDocuments env docs = Inr chunks \<and>
         fst (createAndSaveLanceDBStore env chunks cn sp h2) = Inr ())) \<and>
   (fst (createAndSaveLanceDBStore env chunks cn sp h2) = Inr () \<and> chunks \<noteq> [] \<longrightarrow>
      (\<exists>vectors.
         embedDocuments env (store_prefix env h2 (path_join env sp cn)) (map pageContent chunks)
           = Inr vectors \<and>
         connect env (store_prefix env h2 (path_join env sp cn)
                        @ [EmbedDocuments (map pageContent chunks)]) (path_join env sp cn)
           = Inr () \<and>
         createTable env (store_prefix env h2 (path_join env sp cn)
                        @ [EmbedDocuments (map pageContent chunks),
                           Connect (path_join env sp cn)]) cn (table_data chunks vectors)
           = Inr ()))"
  using run_total [of env pp cn co sp h] ingest_total [of env pp cn co key sp h]
    run_True_iff [of env pp cn co sp h] ingest_True_iff [of env pp cn co key sp h]
    run_steps_Inr [of env pp cn co sp h1 True]
    createAndSave_Inr [of env chunks cn sp h2 "()"]
  by blast

theorem run_never_throws_witness:
  "fst (run (shop_env (Inl (Failure ''Unexpected token'')) (Inr [])) ''/docs/shop.json''
          ''codepilot_shop'' ''Shop'' ''/storage'' []) = Inr False \<and>
   fst (run (shop_env (Inr JNull) (Inr [])) ''/docs/shop.json''
          ''codepilot_shop'' ''Shop'' ''/storage'' []) = Inr False \<and>
   fst (run (shop_env (Inr shop_collection) (Inl (Failure ''429''))) ''/docs/shop.json''
          ''codepilot_shop'' ''Shop'' ''/storage'' []) = Inr True \<and>
   fst (ingestPostmanCollection (shop_env (Inr shop_collection) (Inr [])) ''/docs/shop.json''
          ''codepilot_shop'' ''Shop'' [] ''/storage'' []) = Inr False \<and>
   fst (ingestPostmanCollection (shop_env (Inr shop_collection) (Inr [])) ''/docs/shop.json''
          ''codepilot_shop'' ''Shop'' ''sk-test'' ''/storage'' []) = Inr True"
  using run_never_throws [of "shop_env (Inl (Failure ''Unexpected token'')) (Inr [])"
      "''/docs/shop.json''" "''codepilot_shop''" "''Shop''" "''/storage''" "[]"]
    run_never_throws [of "shop_env (Inr shop_collection) (Inr [])"
      "''/docs/shop.json''" "''codepilot_shop''" "''Shop''" "''/storage''" "[]" "[]"]
  by (simp add: shop_env_def shop_collection_def io_defs ingest_defs
        ingestPostmanCollection_def new_IngestionTool_def)

section \<open>Description documents\<close>

lemma member_type:
  "member (JObj (baseMeta n c m u @ (''type'', t) # rest)) ''type'' = t"
  by (simp add: baseMeta_def)

lemma response_documents_type:
  "response_documents (baseMeta n c m u) rs = Inr ds \<Longrightarrow> d \<in> set ds \<Longrightarrow>
   member (metadata d) ''type'' \<noteq> JStr ''description''"
proof (induction rs arbitrary: ds)
  case Nil
  then show ?case by simp
next
  case (Cons r rs)
  then show ?case
    by (auto simp del: member.simps simp: member_type is_description_doc_def
        split: if_splits sum.splits)
qed

text \<open>The template literal prints the description text as the words of the description.\<close>

lemma descriptionText_words: "js_toString env (descriptionText d) = description_words env d"
  by (cases d) (simp_all add: descriptionText_def js_or_def split: option.splits)

lemma contentWithUrl_unenhanced:
  "(case constructUrlFromPostman env (member (member ep ''request'') ''url'') of
      Inl e \<Rightarrow> Inl e
    | Inr url \<Rightarrow>
        contentWithUrl env url (descriptionText (member (member ep ''request'') ''description'')))
   = unenhanced env ep"
  by (simp add: unenhanced_def contentWithUrl_def descriptionText_words newline_def
      split: sum.splits)

lemma enhanceDescription_result:
  "enhanceDescription env desc name company h =
     (Inr (enhanced_text env (llm_invoke env h ''gpt-3.5-turbo'' (enhance_prompt desc name company))
             desc),
      h @ [LlmInvoke ''gpt-3.5-turbo'' (enhance_prompt desc name company)])"
  by (simp add: enhanceDescription_def enhanced_text_def Let_def io_defs split: sum.splits)

lemma io_bind_enhance:
  "io_bind (enhanceDescription env desc name company) f h =
     f (enhanced_text env (llm_invoke env h ''gpt-3.5-turbo'' (enhance_prompt desc name company))
          desc)
       (h @ [LlmInvoke ''gpt-3.5-turbo'' (enhance_prompt desc name company)])"
  by (simp add: io_bind_def enhanceDescription_result)

lemma endpoint_documents_shape:
  assumes "endpoint_documents env company ep h = (Inr ds, h')"
  shows "if has_description ep
         then \<exists>content name d rest.
                unenhanced env ep = Inr content \<and> endpoint_name env ep = Inr name \<and>
                ds = d # rest \<and> is_description_doc d \<and>
                pageContent d =
                  JStr (enhanced_text env (llm_invoke env h ''gpt-3.5-turbo''
                          (enhance_prompt content name company)) content) \<and>
                (\<forall>d'\<in>set rest. \<not> is_description_doc d') \<and>
                h' = h @ [LlmInvoke ''gpt-3.5-turbo'' (enhance_prompt content name company)]
         else (\<forall>d\<in>set ds. \<not> is_description_doc d) \<and> h' = h"
  using assms contentWithUrl_unenhanced [of env ep]
  apply (simp add: endpoint_documents_def Let_def io_bind_assoc io_bind_lift io_bind_return
       io_bind_enhance io_return_apply split: if_splits sum.splits)
  apply (auto simp del: member.simps simp: member_type is_description_doc_def has_description_def
       dest: response_documents_type)
  done

lemma enhanced_text_Inl: "enhanced_text env (Inl e) desc = desc"
  by (simp add: enhanced_text_def)

lemma enhanced_text_Inr: "enhanced_text env (Inr a) desc = trim env a"
  by (simp add: enhanced_text_def)

lemma endpoint_name_trimmed: "endpoint_name env ep = Inr name \<Longrightarrow> name = trimmed_name env ep"
proof (cases ep)
  case (JObj kvs)
  assume "endpoint_name env ep = Inr name"
  with JObj show ?thesis
  proof (cases "map_of kvs ''name''")
    case None
    with JObj \<open>endpoint_name env ep = Inr name\<close> show ?thesis
      by (simp add: endpoint_name_def get_prop_def)
  next
    case (Some n)
    with JObj \<open>endpoint_name env ep = Inr name\<close> show ?thesis
      by (cases n) (auto simp: endpoint_name_def get_prop_def)
  qed
qed (auto simp: endpoint_name_def get_prop_def)

lemma endpoint_documents_round:
  assumes "endpoint_documents env company ep h = (Inr ds, h')"
  shows "\<exists>cs. h' = h @ cs \<and> round_ok env company ep h (ds, cs)"
proof (cases "has_description ep")
  case True
  with endpoint_documents_shape [OF assms]
  obtain content name d rest where c:
    "unenhanced env ep = Inr content" "name = trimmed_name env ep"
    "ds = d # rest" "is_description_doc d"
    "pageContent d =
       JStr (enhanced_text env (llm_invoke env h ''gpt-3.5-turbo''
               (enhance_prompt content name company)) content)"
    "\<forall>d'\<in>set rest. \<not> is_description_doc d'"
    "h' = h @ [LlmInvoke ''gpt-3.5-turbo'' (enhance_prompt content name company)]"
    by (auto dest: endpoint_name_trimmed)
  from c(3,4) have "\<exists>d\<in>set ds. is_description_doc d"
    by auto
  moreover have "\<forall>e. llm_invoke env h ''gpt-3.5-turbo''
                       (enhance_prompt content name company) = Inl e \<longrightarrow>
                    pageContent d = JStr content"
    using c(5) by (simp add: enhanced_text_Inl)
  moreover have "\<forall>a. llm_invoke env h ''gpt-3.5-turbo''
                       (enhance_prompt content name company) = Inr a \<longrightarrow>
                    pageContent d = JStr (trim env a)"
    using c(5) by (simp add: enhanced_text_Inr)
  ultimately have
    "round_ok env company ep h
       (ds, [LlmInvoke ''gpt-3.5-turbo'' (enhance_prompt content name company)])"
      using True c(1,3,4,6) unfolding round_ok_def fst_conv snd_conv c(2) [symmetric] by blast
  with c(7) show ?thesis by blast
next
  case False
  with endpoint_documents_shape [OF assms]
  have "h' = h @ []" "round_ok env company ep h (ds, [])"
    by (simp_all add: round_ok_def)
  then show ?thesis by blast
qed

lemma documents_loop_rounds:
  "documents_loop env company eps acc h = (Inr docs, h') \<Longrightarrow>
   \<exists>rounds. length rounds = length eps \<and> docs = acc @ concat (map fst rounds) \<and>
            h' = h @ concat (map snd rounds) \<and>
            (\<forall>i<length eps.
               round_ok env company (eps ! i) (h @ concat (map snd (take i rounds)))
                 (rounds ! i))"
proof (induction eps arbitrary: acc h)
  case Nil
  then show ?case by (simp add: io_return_def)
next
  case (Cons ep eps)
  obtain r h1 where r: "endpoint_documents env company ep h = (r, h1)"
    by (cases "endpoint_documents env company ep h")
  with Cons.prems obtain ds where ds: "r = Inr ds"
    and rest: "documents_loop env company eps (acc @ ds) h1 = (Inr docs, h')"
    by (cases r) (auto simp: io_bind_def)
  from r ds obtain cs where cs: "h1 = h @ cs" "round_ok env company ep h (ds, cs)"
    using endpoint_documents_round [of env company ep h ds h1] by blast
  from Cons.IH [OF rest] obtain rounds where
    rounds: "length rounds = length eps" "docs = (acc @ ds) @ concat (map fst rounds)"
            "h' = h1 @ concat (map snd rounds)"
            "\<forall>i<length eps.
               round_ok env company (eps ! i) (h1 @ concat (map snd (take i rounds)))
                 (rounds ! i)"
    by blast
  have "\<forall>i<length (ep # eps).
          round_ok env company ((ep # eps) ! i)
            (h @ concat (map snd (take i ((ds, cs) # rounds)))) (((ds, cs) # rounds) ! i)"
  proof (intro allI impI)
    fix i
    assume i: "i < length (ep # eps)"
    show "round_ok env company ((ep # eps) ! i)
            (h @ concat (map snd (take i ((ds, cs) # rounds)))) (((ds, cs) # rounds) ! i)"
    proof (cases i)
      case 0
      with cs(2) show ?thesis by simp
    next
      case (Suc j)
      with i rounds(4) cs(1) show ?thesis by simp
    qed
  qed
  with rounds(1,2,3) cs(1)
  have "length ((ds, cs) # rounds) = length (ep # eps) \<and>
        docs = acc @ concat (map fst ((ds, cs) # rounds)) \<and>
        h' = h @ concat (map snd ((ds, cs) # rounds)) \<and>
        (\<forall>i<length (ep # eps).
           round_ok env company ((ep # eps) ! i)
             (h @ concat (map snd (take i ((ds, cs) # rounds)))) (((ds, cs) # rounds) ! i))"
    by simp
  then show ?case by blast
qed

text \<open>The language model's answers decide no call and no failure of the document stage.\<close>

lemma js_toString_llm: "js_toString (env\<lparr>llm_invoke := f\<rparr>) v = js_toString env v"
  by (induction env v rule: js_toString.induct) (simp_all cong: map_cong if_cong)

lemma call_join_llm: "call_join (env\<lparr>llm_invoke := f\<rparr>) v sep = call_join env v sep"
  by (cases v) (simp_all add: js_join_def js_toString_llm cong: map_cong if_cong)

lemma constructUrlFromPostman_llm:
  "constructUrlFromPostman (env\<lparr>llm_invoke := f\<rparr>) u = constructUrlFromPostman env u"
  by (simp add: constructUrlFromPostman_def call_join_llm js_toString_llm
      cong: sum.case_cong if_cong)

lemma contentWithUrl_llm:
  "contentWithUrl (env\<lparr>llm_invoke := f\<rparr>) url t = contentWithUrl env url t"
  by (simp add: contentWithUrl_def js_toString_llm cong: sum.case_cong)

lemma endpoint_name_llm: "endpoint_name (env\<lparr>llm_invoke := f\<rparr>) ep = endpoint_name env ep"
  by (simp add: endpoint_name_def cong: sum.case_cong)

lemma endpoint_method_llm:
  "endpoint_method (env\<lparr>llm_invoke := f\<rparr>) ep = endpoint_method env ep"
  by (simp add: endpoint_method_def cong: sum.case_cong)

lemma endpoint_documents_llm:
  "snd (endpoint_documents (env\<lparr>llm_invoke := f\<rparr>) company ep h) =
     snd (endpoint_documents env company ep h) \<and>
   isl (fst (endpoint_documents (env\<lparr>llm_invoke := f\<rparr>) company ep h)) =
     isl (fst (endpoint_documents env company ep h))"
  by (simp add: endpoint_documents_def Let_def io_bind_assoc io_bind_lift io_bind_return
       io_bind_enhance io_return_apply constructUrlFromPostman_llm contentWithUrl_llm
       endpoint_name_llm endpoint_method_llm split: if_splits sum.splits)

lemma documents_loop_llm:
  "snd (documents_loop (env\<lparr>llm_invoke := f\<rparr>) company eps acc h) =
     snd (documents_loop env company eps acc' h) \<and>
   isl (fst (documents_loop (env\<lparr>llm_invoke := f\<rparr>) company eps acc h)) =
     isl (fst (documents_loop env company eps acc' h))"
proof (induction eps arbitrary: acc acc' h)
  case Nil
  show ?case by (simp add: io_return_def)
next
  case (Cons ep eps)
  obtain r h1 where r: "endpoint_documents env company ep h = (r, h1)"
    by (cases "endpoint_documents env company ep h")
  obtain r' h1' where r': "endpoint_documents (env\<lparr>llm_invoke := f\<rparr>) company ep h = (r', h1')"
    by (cases "endpoint_documents (env\<lparr>llm_invoke := f\<rparr>) company ep h")
  from endpoint_documents_llm [where env = env and f = f and company = company and ep = ep and h = h] r r'
  have same: "h1' = h1" "isl r' = isl r" by simp_all
  show ?case
  proof (cases r)
    case (Inl e)
    with same obtain e' where "r' = Inl e'" by (cases r') auto
    with Inl r r' same show ?thesis by (simp add: io_bind_def)
  next
    case (Inr ds)
    with same obtain ds' where "r' = Inr ds'" by (cases r') auto
    with Inr r r' same Cons.IH [where acc = "acc @ ds'" and h = h1 and acc' = "acc' @ ds"] show ?thesis
      by (simp add: io_bind_def)
  qed
qed

text \<open>
  Claim C5, as amended. When \<^verbatim>\<open>createDocumentsFromEndpoints\<close> returns, its documents and
  the calls it made are those of the rounds of its loop, one round per endpoint and in
  order, and for every endpoint:

    \<^item> its round holds a document of type \<^verbatim>\<open>description\<close> if and only if
      \<^verbatim>\<open>ep.request.description\<close> is truthy (present and neither empty nor \<^verbatim>\<open>null\<close>, zero,
      \<^verbatim>\<open>NaN\<close> or false);

    \<^item> a round with no such document makes no call, and a round with one makes one call,
      after the calls of the rounds before it: it sends the model \<^verbatim>\<open>gpt-3.5-turbo\<close> the
      prompt made of the company, the trimmed name of the endpoint and the unenhanced
      text;

    \<^item> the document comes first in its round and is the only one of its type there;

    \<^item> when that call fails, the document's page content is the unenhanced text:
      \<^verbatim>\<open>Endpoint URL: \<close> and the URL of the endpoint, a blank line, and the description
      when it is a string, its \<^verbatim>\<open>content\<close> when it is an object with a truthy
      \<^verbatim>\<open>content\<close>, and nothing for any other description; when the call answers, the page
      content is the answer, trimmed.

  Whether the function raises does not depend on the language model: replacing its answers
  by any others, failures among them, changes neither.
\<close>

theorem createDocumentsFromEndpoints_description:
  "(createDocumentsFromEndpoints env eps company h = (Inr docs, h') \<longrightarrow>
      (\<exists>rounds.
         length rounds = length eps \<and> docs = concat (map fst rounds) \<and>
         h' = h @ concat (map snd rounds) \<and>
         (\<forall>i<length eps.
            ((\<exists>d\<in>set (fst (rounds ! i)). is_description_doc d) \<longleftrightarrow>
               has_description (eps ! i)) \<and>
            (\<not> has_description (eps ! i) \<longrightarrow> snd (rounds ! i) = []) \<and>
            (has_description (eps ! i) \<longrightarrow>
               (\<exists>content prompt d rest.
                  unenhanced env (eps ! i) = Inr content \<and>
                  prompt = enhance_prompt content (trimmed_name env (eps ! i)) company \<and>
                  fst (rounds ! i) = d # rest \<and> is_description_doc d \<and>
                  (\<forall>d'\<in>set rest. \<not> is_description_doc d') \<and>
                  snd (rounds ! i) = [LlmInvoke ''gpt-3.5-turbo'' prompt] \<and>
                  (\<forall>e. llm_invoke env (h @ concat (map snd (take i rounds))) ''gpt-3.5-turbo''
                         prompt = Inl e \<longrightarrow>
                       pageContent d = JStr content) \<and>
                  (\<forall>a. llm_invoke env (h @ concat (map snd (take i rounds))) ''gpt-3.5-turbo''
                         prompt = Inr a \<longrightarrow>
                       pageContent d = JStr (trim env a))))))) \<and>
   isl (fst (createDocumentsFromEndpoints (env\<lparr>llm_invoke := f\<rparr>) eps company h)) =
     isl (fst (createDocumentsFromEndpoints env eps company h))"
proof (intro conjI impI)
  assume "createDocumentsFromEndpoints env eps company h = (Inr docs, h')"
  then obtain rounds where r: "length rounds = length eps" "docs = concat (map fst rounds)"
      "h' = h @ concat (map snd rounds)"
      "\<forall>i<length eps.
         round_ok env company (eps ! i) (h @ concat (map snd (take i rounds))) (rounds ! i)"
    using documents_loop_rounds [of env company eps "[]" h docs h']
    by (auto simp: createDocumentsFromEndpoints_def)
  then show "\<exists>rounds.
         length rounds = length eps \<and> docs = concat (map fst rounds) \<and>
         h' = h @ concat (map snd rounds) \<and>
         (\<forall>i<length eps.
            ((\<exists>d\<in>set (fst (rounds ! i)). is_description_doc d) \<longleftrightarrow>
               has_description (eps ! i)) \<and>
            (\<not> has_description (eps ! i) \<longrightarrow> snd (rounds ! i) = []) \<and>
            (has_description (eps ! i) \<longrightarrow>
               (\<exists>content prompt d rest.
                  unenhanced env (eps ! i) = Inr content \<and>
                  prompt = enhance_prompt content (trimmed_name env (eps ! i)) company \<and>
                  fst (rounds ! i) = d # rest \<and> is_description_doc d \<and>
                  (\<forall>d'\<in>set rest. \<not> is_description_doc d') \<and>
                  snd (rounds ! i) = [LlmInvoke ''gpt-3.5-turbo'' prompt] \<and>
                  (\<forall>e. llm_invoke env (h @ concat (map snd (take i rounds))) ''gpt-3.5-turbo''
                         prompt = Inl e \<longrightarrow>
                       pageContent d = JStr content) \<and>
                  (\<forall>a. llm_invoke env (h @ concat (map snd (take i rounds))) ''gpt-3.5-turbo''
                         prompt = Inr a \<longrightarrow>
                       pageContent d = JStr (trim env a)))))"
    unfolding round_ok_def by (intro exI [of _ rounds]) simp
next
  show "isl (fst (createDocumentsFromEndpoints (env\<lparr>llm_invoke := f\<rparr>) eps company h)) =
     isl (fst (createDocumentsFromEndpoints env eps company h))"
    using documents_loop_llm [where env = env and f = f and company = company and eps = eps
        and acc = "[]" and acc' = "[]" and h = h]
    by (simp add: createDocumentsFromEndpoints_def)
qed

text \<open>
  Claim C5 as stated fails for a description that is present and empty: no document of
  type \<^verbatim>\<open>description\<close> is created, and the language model is not called.
\<close>

theorem empty_description_no_document:
  "member (member (JObj [(''name'', JStr ''Ping''),
                         (''request'', JObj [(''url'', JStr ''https://api.shop.test/ping''),
                                             (''description'', JStr [])])]) ''request'')
     ''description'' = JStr [] \<and>
   createDocumentsFromEndpoints (shop_env (Inr JNull) (Inr ''Checks the service.''))
     [JObj [(''name'', JStr ''Ping''),
            (''request'', JObj [(''url'', JStr ''https://api.shop.test/ping''),
                                (''description'', JStr [])])]] ''Shop'' [] = (Inr [], [])"
  by (simp add: shop_env_def io_defs ingest_defs)

theorem createDocumentsFromEndpoints_description_witness:
  "createDocumentsFromEndpoints flaky_env [ping_endpoint, orders_endpoint, upload_endpoint]
     ''Shop'' [] =
     (Inr [\<lparr>pageContent = JStr (''Endpoint URL: https://api.shop.test/ping'' @ newline @ newline
                                  @ ''Checks the service.''),
             metadata = JObj [(''name'', JStr ''Ping''), (''company'', JStr ''Shop''),
                              (''method'', JStr []), (''url'', JStr ''https://api.shop.test/ping''),
                              (''type'', JStr ''description'')]\<rparr>,
           \<lparr>pageContent = JStr ''Used to list orders.'',
             metadata = JObj [(''name'', JStr ''Orders''), (''company'', JStr ''Shop''),
                              (''method'', JStr []), (''url'', JStr ''https://api.shop/orders''),
                              (''type'', JStr ''description'')]\<rparr>,
           \<lparr>pageContent = JStr ''file=1'',
             metadata = JObj [(''name'', JStr ''Upload''), (''company'', JStr ''Shop''),
                              (''method'', JStr []), (''url'', JStr ''https://api.shop.test/upload''),
                              (''type'', JStr ''body'')]\<rparr>],
      [LlmInvoke ''gpt-3.5-turbo''
         (enhance_prompt (''Endpoint URL: https://api.shop.test/ping'' @ newline @ newline
                          @ ''Checks the service.'') ''Ping'' ''Shop''),
       LlmInvoke ''gpt-3.5-turbo''
         (enhance_prompt (''Endpoint URL: https://api.shop/orders'' @ newline @ newline
                          @ ''Lists orders.'') ''Orders'' ''Shop'')]) \<and>
   unenhanced flaky_env ping_endpoint =
     Inr (''Endpoint URL: https://api.shop.test/ping'' @ newline @ newline
          @ ''Checks the service.'') \<and>
   unenhanced flaky_env orders_endpoint =
     Inr (''Endpoint URL: https://api.shop/orders'' @ newline @ newline @ ''Lists orders.'') \<and>
   \<not> isl (fst (createDocumentsFromEndpoints
                 (flaky_env\<lparr>llm_invoke := \<lambda>h m p. Inl (Failure ''429'')\<rparr>)
                 [ping_endpoint, orders_endpoint, upload_endpoint] ''Shop'' []))"
proof -
  have run: "createDocumentsFromEndpoints flaky_env
               [ping_endpoint, orders_endpoint, upload_endpoint] ''Shop'' [] =
     (Inr [\<lparr>pageContent = JStr (''Endpoint URL: https://api.shop.test/ping'' @ newline @ newline
                                  @ ''Checks the service.''),
             metadata = JObj [(''name'', JStr ''Ping''), (''company'', JStr ''Shop''),
                              (''method'', JStr []), (''url'', JStr ''https://api.shop.test/ping''),
                              (''type'', JStr ''description'')]\<rparr>,
           \<lparr>pageContent = JStr ''Used to list orders.'',
             metadata = JObj [(''name'', JStr ''Orders''), (''company'', JStr ''Shop''),
                              (''method'', JStr []), (''url'', JStr ''https://api.shop/orders''),
                              (''type'', JStr ''description'')]\<rparr>,
           \<lparr>pageContent = JStr ''file=1'',
             metadata = JObj [(''name'', JStr ''Upload''), (''company'', JStr ''Shop''),
                              (''method'', JStr []), (''url'', JStr ''https://api.shop.test/upload''),
                              (''type'', JStr ''body'')]\<rparr>],
      [LlmInvoke ''gpt-3.5-turbo''
         (enhance_prompt (''Endpoint URL: https://api.shop.test/ping'' @ newline @ newline
                          @ ''Checks the service.'') ''Ping'' ''Shop''),
       LlmInvoke ''gpt-3.5-turbo''
         (enhance_prompt (''Endpoint URL: https://api.shop/orders'' @ newline @ newline
                          @ ''Lists orders.'') ''Orders'' ''Shop'')])"
    by (simp add: flaky_env_def shop_env_def ping_endpoint_def orders_endpoint_def
        upload_endpoint_def js_join_def io_defs ingest_defs)
  have ping: "unenhanced flaky_env ping_endpoint =
     Inr (''Endpoint URL: https://api.shop.test/ping'' @ newline @ newline
          @ ''Checks the service.'')"
    by (simp add: unenhanced_def flaky_env_def shop_env_def ping_endpoint_def
        constructUrlFromPostman_def newline_def)
  have orders: "unenhanced flaky_env orders_endpoint =
     Inr (''Endpoint URL: https://api.shop/orders'' @ newline @ newline @ ''Lists orders.'')"
    by (simp add: unenhanced_def flaky_env_def shop_env_def orders_endpoint_def
        constructUrlFromPostman_def js_or_def js_join_def newline_def)
  have "isl (fst (createDocumentsFromEndpoints
                 (flaky_env\<lparr>llm_invoke := \<lambda>h m p. Inl (Failure ''429'')\<rparr>)
                 [ping_endpoint, orders_endpoint, upload_endpoint] ''Shop'' [])) =
        isl (fst (createDocumentsFromEndpoints flaky_env
                 [ping_endpoint, orders_endpoint, upload_endpoint] ''Shop'' []))"
    using createDocumentsFromEndpoints_description
      [where env = flaky_env and f = "\<lambda>h m p. Inl (Failure ''429'')"
         and eps = "[ping_endpoint, orders_endpoint, upload_endpoint]"
         and company = "''Shop''" and h = "[]"]
    by (rule conjunct2)
  with run have "\<not> isl (fst (createDocumentsFromEndpoints
                 (flaky_env\<lparr>llm_invoke := \<lambda>h m p. Inl (Failure ''429'')\<rparr>)
                 [ping_endpoint, orders_endpoint, upload_endpoint] ''Shop'' []))"
    by simp
  with run ping orders show ?thesis by blast
qed
section \<open>The snippet cache and the prompts\<close>

lemmas editor_defs = generateCodeLogic_def getCachedCode_def getCodeCacheFilePath_def
  saveCodeToCache_def generateRefactoredCodeLogic_def generate_prompt_def refactor_prompt_def
  clean_snippet_def strip_opening_fence_def strip_closing_fence_def fence_def quote_def
  context_separator_def safe_name_def is_alnum_def is_word_def js_join_def get_prop_def
  ascii_trim_def is_space_def newline_def suffix_to_prefix Let_def

lemma io_bind_Inr: "m h = (Inr x, h') \<Longrightarrow> io_bind m f h = f x h'"
  by (simp add: io_bind_def)

lemma getCodeCacheFilePath_calls:
  "calls_only is_cache_call (getCodeCacheFilePath env storage endpointName language)"
  unfolding getCodeCacheFilePath_def Let_def fs_existsSync_def
  by (intro calls_only_intros) simp_all

lemma getCachedCode_calls:
  "calls_only is_cache_call (getCachedCode env storage endpointName language)"
  unfolding getCachedCode_def Let_def fs_existsSync_def
  by (intro calls_only_intros getCodeCacheFilePath_calls) simp_all

text \<open>
  Claim C10, as amended. The cache of generated code is keyed by the sanitized endpoint
  name and the language alone. For every call of \<^verbatim>\<open>generateCodeLogic\<close> where the cache
  holds a snippet for the pair that is not empty, that snippet is returned unchanged and
  the calls made are those of the cache lookup only (existence checks, a possible
  \<^verbatim>\<open>mkdir\<close>, the read of the file): no embedding, no search, no model call. The collection
  the call names plays no part, and neither does the endpoint name beyond its sanitized
  form.
\<close>

theorem generateCodeLogic_cached:
  assumes "getCachedCode env storage endpointName language h = (Inr (Some code), h1)"
      and "code \<noteq> []"
  shows "generateCodeLogic env storage endpointName collectionName language h = (Inr code, h1) \<and>
         (\<exists>cs. h1 = h @ cs \<and> list_all is_cache_call cs) \<and>
         (\<forall>other. safe_name other = safe_name endpointName \<longrightarrow>
            generateCodeLogic env storage other collectionName language h = (Inr code, h1))"
proof -
  have hit: "generateCodeLogic env storage name collectionName language h = (Inr code, h1)"
    if c: "getCachedCode env storage name language h = (Inr (Some code), h1)" for name
    unfolding generateCodeLogic_def
    by (subst io_bind_Inr [where m = "getCachedCode env storage name language", OF c])
       (simp add: assms(2) io_return_def)
  have same: "getCachedCode env storage other language =
                getCachedCode env storage endpointName language"
    if "safe_name other = safe_name endpointName" for other
    using that by (simp add: getCachedCode_def getCodeCacheFilePath_def)
  from getCachedCode_calls [of env storage endpointName language] assms(1)
  have calls: "\<exists>cs. h1 = h @ cs \<and> list_all is_cache_call cs"
    by (auto simp: calls_only_def dest: spec [of _ h])
  have others: "generateCodeLogic env storage other collectionName language h = (Inr code, h1)"
    if s: "safe_name other = safe_name endpointName" for other
  proof -
    from same [OF s] assms(1)
    have "getCachedCode env storage other language h = (Inr (Some code), h1)" by simp
    then show ?thesis by (rule hit)
  qed
  from hit [OF assms(1)] calls others show ?thesis by blast
qed

lemma first_generation_result:
  "first_generation = (Inr ''print(1)'', generation_calls ''print(1)'')"
  by (simp add: first_generation_def fenced_answer_def generation_calls_def shop_env_def
        io_defs editor_defs)

lemma empty_generation_result:
  "empty_generation = (Inr [], generation_calls [])"
  by (simp add: empty_generation_def generation_calls_def shop_env_def io_defs editor_defs)

theorem generateCodeLogic_cached_witness:
  "fst first_generation = Inr ''print(1)'' \<and>
   generateCodeLogic (shop_env (Inr JNull) (Inr fenced_answer)) ''/storage'' ''Create-Order''
     ''codepilot_other'' ''python'' (snd first_generation) =
     (Inr ''print(1)'',
      snd first_generation
        @ [ExistsSync ''/storage/generated_code'',
           ExistsSync ''/storage/generated_code/Create_Order_python.txt'',
           ReadFileSync ''/storage/generated_code/Create_Order_python.txt''])"
proof -
  let ?env = "shop_env (Inr JNull) (Inr fenced_answer)"
  have hit: "getCachedCode ?env ''/storage'' ''Create Order'' ''python'' (snd first_generation) =
     (Inr (Some ''print(1)''),
      snd first_generation
        @ [ExistsSync ''/storage/generated_code'',
           ExistsSync ''/storage/generated_code/Create_Order_python.txt'',
           ReadFileSync ''/storage/generated_code/Create_Order_python.txt''])"
    by (simp add: first_generation_result generation_calls_def shop_env_def io_defs
          getCachedCode_def getCodeCacheFilePath_def safe_name_def is_alnum_def Let_def)
  have code: "''print(1)'' \<noteq> []" by simp
  have name: "safe_name ''Create-Order'' = safe_name ''Create Order''"
    by (simp add: safe_name_def is_alnum_def)
  from generateCodeLogic_cached [OF hit code, of "''codepilot_other''"] name
  show ?thesis by (simp add: first_generation_result)
qed

text \<open>
  Claim C10 as stated fails for a cached snippet that is empty. The model answered with an
  empty code fence, the empty snippet was written to the cache, and the next call for the
  same pair finds the file, reads it, and embeds, searches and asks the model again.
\<close>

theorem empty_cache_generates_again:
  "fst empty_generation = Inr [] \<and>
   fst (getCachedCode (shop_env (Inr JNull) (Inr (fence @ newline @ fence))) ''/storage''
          ''Create Order'' ''python'' (snd empty_generation)) = Inr (Some []) \<and>
   snd (generateCodeLogic (shop_env (Inr JNull) (Inr (fence @ newline @ fence))) ''/storage''
          ''Create Order'' ''codepilot_shop'' ''python'' (snd empty_generation)) =
     snd empty_generation
       @ [ExistsSync ''/storage/generated_code'',
          ExistsSync ''/storage/generated_code/Create_Order_python.txt'',
          ReadFileSync ''/storage/generated_code/Create_Order_python.txt'', GetApiKey,
          ShowInputBox (''Generate python code for '' @ quote @ ''Create Order'' @ quote)
            (''e.g., '' @ quote @ ''with error handling'' @ quote),
          Connect ''/storage/codepilot_shop'', OpenTable ''codepilot_shop'',
          EmbedQuery ''Create Order with error handling'', Search [1] 4,
          LlmInvoke ''gpt-4o'' (generate_prompt ''python'' ''Create Order with error handling''),
          ExistsSync ''/storage/generated_code'',
          WriteFileSync ''/storage/generated_code/Create_Order_python.txt'' []]"
  by (simp add: empty_generation_result generation_calls_def shop_env_def io_defs editor_defs)

text \<open>
  Claim C6 says that the texts of the top results are joined with \<^verbatim>\<open>\n---\n\<close> and
  included in the prompt. \<^verbatim>\<open>generateCodeLogic\<close> joins them and leaves them out: the prompt
  it sends holds the language and the request only, and it is the same prompt when the
  search returns other documents.
\<close>

theorem generateCodeLogic_prompt_without_context:
  "filter is_llm_call
     (snd (generateCodeLogic (shop_env (Inr JNull) (Inr ''print(1)'')) ''/storage''
             ''Create Order'' ''codepilot_shop'' ''python'' [])) =
     [LlmInvoke ''gpt-4o''
        (''Your task is to be a raw code generator. Based on the provided API documentation, ''
         @ ''generate a single, complete, and executable code snippet in python. ''
         @ ''Your response will be directly executed as python code. ''
         @ ''Do NOT include any explanations, introductory text, or markdown code blocks like ''
         @ fence @ ''. Real User Request: '' @ quote @ ''Create Order with error handling''
         @ quote @ newline @ ''Generate the code now:'')] \<and>
   filter is_llm_call
     (snd (generateCodeLogic
             ((shop_env (Inr JNull) (Inr ''print(1)''))
                \<lparr>search := \<lambda>h v k. Inr [JObj [(''text'', JStr ''GET /refunds lists refunds'')]]\<rparr>)
             ''/storage'' ''Create Order'' ''codepilot_shop'' ''python'' [])) =
     [LlmInvoke ''gpt-4o''
        (''Your task is to be a raw code generator. Based on the provided API documentation, ''
         @ ''generate a single, complete, and executable code snippet in python. ''
         @ ''Your response will be directly executed as python code. ''
         @ ''Do NOT include any explanations, introductory text, or markdown code blocks like ''
         @ fence @ ''. Real User Request: '' @ quote @ ''Create Order with error handling''
         @ quote @ newline @ ''Generate the code now:'')]"
  by (simp add: shop_env_def io_defs editor_defs)

text \<open>
  \<^verbatim>\<open>generateRefactoredCodeLogic\<close> does include them.
\<close>

lemma generateRefactoredCodeLogic_prompt_with_context:
  "filter is_llm_call
     (snd (generateRefactoredCodeLogic (shop_env (Inr JNull) (Inr ''print(2)'')) ''/storage''
             ''python'' ''print(1)'' ''call the API'' [])) =
     [LlmInvoke ''gpt-4o''
        (refactor_prompt
           (''POST /orders creates an order'' @ newline @ ''---'' @ newline
            @ ''Send a Bearer token'')
           ''python'' ''print(1)'' ''call the API'')]"
  by (simp add: shop_env_def io_defs editor_defs)

end
